theory Spec2Isabelle
  imports Complex_Main
begin

section \<open>OSM mining pipeline: query builder, normalizer, store\<close>

text \<open>
  A shallow embedding of \<^verbatim>\<open>osm-mining/src/queryBuilder.js\<close>,
  \<^verbatim>\<open>osm-mining/src/osmFetcher.ts\<close> and \<^verbatim>\<open>osm-mining/src/mongoStorage.ts\<close>.
\<close>

subsection \<open>JavaScript numbers\<close>

text \<open>
  A JavaScript number is an IEEE 754 double: a finite value, one of the two
  infinities, or NaN. \<open>Num x\<close> is the finite number of value \<open>x\<close>; the two zeros are
  not told apart.

  The sum and the quotient of two finite numbers are the exact result rounded to the
  nearest double, ties to the even significand. A double has 53 significant bits: in
  the binade \<^verbatim>\<open>2^e <= |x| < 2^(e+1)\<close> the doubles are the multiples of
  \<^verbatim>\<open>2^(e-52)\<close>; the least normal exponent is -1022, below which the spacing stays
  \<^verbatim>\<open>2^(-1074)\<close>; a result that rounds to \<^verbatim>\<open>2^1024\<close> or beyond is an infinity.

  The conversion of a number to its string (\<^verbatim>\<open>String(n)\<close>, template interpolation)
  is a built-in of the language; every definition that needs it takes it as the
  parameter \<open>numToString\<close>.
\<close>

datatype number = Num real | PosInf | NegInf | NaN

definition roundHalfEven :: "real \<Rightarrow> int" where
  "roundHalfEven y =
     (let f = \<lfloor>y\<rfloor>; d = y - of_int f
      in if d < 1 / 2 then f else if 1 / 2 < d then f + 1 else if even f then f else f + 1)"

definition normalExponents :: "int list" where
  "normalExponents = [-1022..1023]"

definition binade :: "real \<Rightarrow> int" where
  "binade x =
     (case find (\<lambda>e. 2 powi e \<le> \<bar>x\<bar> \<and> \<bar>x\<bar> < 2 powi (e + 1)) normalExponents of
        Some e \<Rightarrow> e
      | None \<Rightarrow> -1022)"

definition roundDouble :: "real \<Rightarrow> number" where
  "roundDouble x =
     (if 2 ^ 1024 \<le> \<bar>x\<bar> then (if 0 < x then PosInf else NegInf)
      else let q = 2 powi (binade x - 52);
               r = q * of_int (roundHalfEven (x / q))
           in if 2 ^ 1024 \<le> \<bar>r\<bar> then (if 0 < x then PosInf else NegInf) else Num r)"

text \<open>\<^verbatim>\<open>a + b\<close> on numbers.\<close>

fun numAdd :: "number \<Rightarrow> number \<Rightarrow> number" where
  "numAdd (Num x) (Num y) = roundDouble (x + y)"
| "numAdd NaN b = NaN"
| "numAdd a NaN = NaN"
| "numAdd PosInf NegInf = NaN"
| "numAdd NegInf PosInf = NaN"
| "numAdd PosInf b = PosInf"
| "numAdd NegInf b = NegInf"
| "numAdd a PosInf = PosInf"
| "numAdd a NegInf = NegInf"

text \<open>\<^verbatim>\<open>a / n\<close> where \<^verbatim>\<open>n\<close> is the length of an array.\<close>

fun numDivLength :: "number \<Rightarrow> nat \<Rightarrow> number" where
  "numDivLength NaN n = NaN"
| "numDivLength PosInf n = PosInf"
| "numDivLength NegInf n = NegInf"
| "numDivLength (Num x) n =
     (if n = 0 then (if 0 < x then PosInf else if x < 0 then NegInf else NaN)
      else roundDouble (x / real n))"

text \<open>A real that is a double is left as it is by the rounding.\<close>

definition representable :: "real \<Rightarrow> bool" where
  "representable x = (roundDouble x = Num x)"

subsection \<open>Strings\<close>

definition nl :: string where
  "nl = [CHR 0x0A]"

text \<open>\<^verbatim>\<open>Array.prototype.join\<close>.\<close>

fun join :: "string \<Rightarrow> string list \<Rightarrow> string" where
  "join sep [] = []"
| "join sep [x] = x"
| "join sep (x # y # ys) = x @ sep @ join sep (y # ys)"

subsection \<open>queryBuilder.js: OverpassQueryBuilder\<close>

record BoundingBox =
  south :: number
  west :: number
  north :: number
  east :: number

text \<open>The class holds one field, set by the constructor and never assigned again.\<close>

record OverpassQueryBuilder =
  bbox :: BoundingBox

record TagConfig =
  tourismTags :: "string list option"
  amenityTags :: "string list option"
  historicTags :: "string list option"
  naturalTags :: "string list option"
  leisureTags :: "string list option"

definition getBboxString :: "(number \<Rightarrow> string) \<Rightarrow> OverpassQueryBuilder \<Rightarrow> string" where
  "getBboxString numToString this =
     numToString (south (bbox this)) @ '','' @ numToString (west (bbox this)) @ '','' @
     numToString (north (bbox this)) @ '','' @ numToString (east (bbox this))"

text \<open>One filter clause: \<^verbatim>\<open>`node["tourism"="${tag}"](${bboxStr});`\<close>.\<close>

definition filterClause :: "string \<Rightarrow> string \<Rightarrow> string \<Rightarrow> string \<Rightarrow> string" where
  \<open>filterClause kind key bboxStr tag =
     kind @ ''["'' @ key @ ''"="'' @ tag @ ''"]('' @ bboxStr @ '');''\<close>

text \<open>
  The five single-dimension methods have the same body up to the tag key; the body is
  written once, with the key as an argument, and instantiated five times.
\<close>

definition buildKeyQuery ::
  "string \<Rightarrow> (number \<Rightarrow> string) \<Rightarrow> OverpassQueryBuilder \<Rightarrow> string list \<Rightarrow> string" where
  "buildKeyQuery key numToString this tags =
     (let bboxStr = getBboxString numToString this;
          tagFilters = join (nl @ ''  '') (map (filterClause ''node'' key bboxStr) tags);
          wayFilters = join (nl @ ''  '') (map (filterClause ''way'' key bboxStr) tags)
      in nl @ ''[out:json][timeout:180];'' @ nl @
         ''('' @ nl @
         ''  '' @ tagFilters @ nl @
         ''  '' @ wayFilters @ nl @
         '');'' @ nl @
         ''out body;'' @ nl @
         ''>;'' @ nl @
         ''out skel qt;'' @ nl)"

definition buildTourismQuery ::
  "(number \<Rightarrow> string) \<Rightarrow> OverpassQueryBuilder \<Rightarrow> string list \<Rightarrow> string" where
  "buildTourismQuery = buildKeyQuery ''tourism''"

definition buildAmenityQuery ::
  "(number \<Rightarrow> string) \<Rightarrow> OverpassQueryBuilder \<Rightarrow> string list \<Rightarrow> string" where
  "buildAmenityQuery = buildKeyQuery ''amenity''"

definition buildHistoricQuery ::
  "(number \<Rightarrow> string) \<Rightarrow> OverpassQueryBuilder \<Rightarrow> string list \<Rightarrow> string" where
  "buildHistoricQuery = buildKeyQuery ''historic''"

definition buildNaturalQuery ::
  "(number \<Rightarrow> string) \<Rightarrow> OverpassQueryBuilder \<Rightarrow> string list \<Rightarrow> string" where
  "buildNaturalQuery = buildKeyQuery ''natural''"

definition buildLeisureQuery ::
  "(number \<Rightarrow> string) \<Rightarrow> OverpassQueryBuilder \<Rightarrow> string list \<Rightarrow> string" where
  "buildLeisureQuery = buildKeyQuery ''leisure''"

text \<open>
  One block of \<^verbatim>\<open>buildComprehensiveQuery\<close>:
  \<^verbatim>\<open>if (tags && tags.length > 0) tags.forEach(tag => { filters.push(node..); filters.push(way..) })\<close>.
  An absent list (\<^verbatim>\<open>undefined\<close>) is \<open>None\<close>.
\<close>

definition pushFilters :: "string \<Rightarrow> string \<Rightarrow> string list option \<Rightarrow> string list \<Rightarrow> string list" where
  "pushFilters key bboxStr tagsOpt filters =
     (case tagsOpt of
        None \<Rightarrow> filters
      | Some tags \<Rightarrow>
          if length tags > 0
          then fold (\<lambda>tag fs. fs @ [filterClause ''node'' key bboxStr tag,
                                    filterClause ''way'' key bboxStr tag]) tags filters
          else filters)"

text \<open>The local array \<^verbatim>\<open>filters\<close> at the \<^verbatim>\<open>return\<close> of \<^verbatim>\<open>buildComprehensiveQuery\<close>.\<close>

definition comprehensiveFilters ::
  "(number \<Rightarrow> string) \<Rightarrow> OverpassQueryBuilder \<Rightarrow> TagConfig \<Rightarrow> string list" where
  "comprehensiveFilters numToString this config =
     (let bboxStr = getBboxString numToString this;
          filters = [];
          filters = pushFilters ''tourism'' bboxStr (tourismTags config) filters;
          filters = pushFilters ''amenity'' bboxStr (amenityTags config) filters;
          filters = pushFilters ''historic'' bboxStr (historicTags config) filters;
          filters = pushFilters ''natural'' bboxStr (naturalTags config) filters;
          filters = pushFilters ''leisure'' bboxStr (leisureTags config) filters
      in filters)"

definition buildComprehensiveQuery ::
  "(number \<Rightarrow> string) \<Rightarrow> OverpassQueryBuilder \<Rightarrow> TagConfig \<Rightarrow> string" where
  "buildComprehensiveQuery numToString this config =
     nl @ ''[out:json][timeout:300];'' @ nl @
     ''('' @ nl @
     ''  '' @ join (nl @ ''  '') (comprehensiveFilters numToString this config) @ nl @
     '');'' @ nl @
     ''out body;'' @ nl @
     ''>;'' @ nl @
     ''out skel qt;'' @ nl"

text \<open>
  Observers used by the statements below. The number of listed tag values of a
  configuration, and the execution-time budget a query string carries: every builder
  starts its output with a line feed and \<^verbatim>\<open>[out:json][timeout:\<close>, twenty characters,
  followed by the decimal budget.
\<close>

definition listedValues :: "string list option \<Rightarrow> nat" where
  "listedValues tagsOpt = (case tagsOpt of None \<Rightarrow> 0 | Some tags \<Rightarrow> length tags)"

definition totalListedValues :: "TagConfig \<Rightarrow> nat" where
  "totalListedValues config =
     listedValues (tourismTags config) + listedValues (amenityTags config) +
     listedValues (historicTags config) + listedValues (naturalTags config) +
     listedValues (leisureTags config)"

definition isDigit :: "char \<Rightarrow> bool" where
  "isDigit c = (c \<in> set ''0123456789'')"

definition decimalValue :: "string \<Rightarrow> nat" where
  "decimalValue ds = foldl (\<lambda>n c. 10 * n + (of_char c - 48)) 0 ds"

definition embeddedTimeout :: "string \<Rightarrow> nat option" where
  "embeddedTimeout q =
     (if take 20 q = nl @ ''[out:json][timeout:''
      then Some (decimalValue (takeWhile isDigit (drop 20 q)))
      else None)"

text \<open>
  Adding values to a tag list that may be absent. Two budgets are in proportion to two
  clause counts when the cross products agree.
\<close>

definition addValues :: "string list option \<Rightarrow> string list \<Rightarrow> string list option" where
  "addValues tagsOpt extra = Some ((case tagsOpt of None \<Rightarrow> [] | Some tags \<Rightarrow> tags) @ extra)"

definition budgetProportional ::
  "(number \<Rightarrow> string) \<Rightarrow> OverpassQueryBuilder \<Rightarrow> TagConfig \<Rightarrow> TagConfig \<Rightarrow> bool" where
  "budgetProportional numToString this c1 c2 =
     (the (embeddedTimeout (buildComprehensiveQuery numToString this c1)) *
        length (comprehensiveFilters numToString this c2) =
      the (embeddedTimeout (buildComprehensiveQuery numToString this c2)) *
        length (comprehensiveFilters numToString this c1))"

text \<open>
  The clauses the specification asks of the composite query, written out: for each
  dimension in the order tourism, amenity, historic, natural, leisure, and for each
  listed value in order, a node clause followed by a way clause.
\<close>

definition dimensionClauses :: "string \<Rightarrow> string \<Rightarrow> string list option \<Rightarrow> string list" where
  \<open>dimensionClauses key bboxStr tagsOpt =
     concat (map (\<lambda>tag. [''node["'' @ key @ ''"="'' @ tag @ ''"]('' @ bboxStr @ '');'',
                         ''way["'' @ key @ ''"="'' @ tag @ ''"]('' @ bboxStr @ '');''])
               (case tagsOpt of None \<Rightarrow> [] | Some tagList \<Rightarrow> tagList))\<close>

definition expectedClauses ::
  "(number \<Rightarrow> string) \<Rightarrow> OverpassQueryBuilder \<Rightarrow> TagConfig \<Rightarrow> string list" where
  "expectedClauses numToString this config =
     dimensionClauses ''tourism'' (getBboxString numToString this) (tourismTags config) @
     dimensionClauses ''amenity'' (getBboxString numToString this) (amenityTags config) @
     dimensionClauses ''historic'' (getBboxString numToString this) (historicTags config) @
     dimensionClauses ''natural'' (getBboxString numToString this) (naturalTags config) @
     dimensionClauses ''leisure'' (getBboxString numToString this) (leisureTags config)"

text \<open>A sample box and rendering for concrete evaluations.\<close>

definition sampleBuilder :: OverpassQueryBuilder where
  "sampleBuilder =
     \<lparr>bbox = \<lparr>south = Num 5, west = Num 79, north = Num 10, east = Num 82\<rparr>\<rparr>"

definition sampleNumToString :: "number \<Rightarrow> string" where
  "sampleNumToString x =
     (if x = Num 5 then ''5'' else if x = Num 79 then ''79'' else if x = Num 10 then ''10''
      else if x = Num 82 then ''82'' else ''0'')"

definition noTags :: TagConfig where
  "noTags = \<lparr>tourismTags = None, amenityTags = None, historicTags = None,
              naturalTags = None, leisureTags = None\<rparr>"

subsection \<open>types.ts\<close>

text \<open>
  A position is a pair: the code reads \<^verbatim>\<open>coord[0]\<close> and \<^verbatim>\<open>coord[1]\<close> only. A
  \<^verbatim>\<open>Date\<close> is its number of milliseconds.
\<close>

type_synonym position = "number \<times> number"
type_synonym Date = nat

datatype GeoJSONGeometry =
    Point position
  | Polygon "position list list"
  | LineString "position list"
  | MultiPolygon "position list list list"

text \<open>
  The values a feature id or a property (\<^verbatim>\<open>unknown\<close>) may hold: a number, a string,
  or an object. An object is the association list of its own properties in insertion
  order, read with \<^const>\<open>map_of\<close>; an absent key reads as \<^verbatim>\<open>undefined\<close>, here
  \<open>None\<close>. Other values (\<^verbatim>\<open>null\<close>, booleans, arrays) are not represented.
\<close>

datatype jsvalue = JNum number | JStr string | JObj "(string \<times> jsvalue) list"

record GeoJSONFeature =
  feature_id :: "jsvalue option"
  feature_geometry :: "GeoJSONGeometry option"
  feature_properties :: "(string \<times> jsvalue) list"

record GeoJSONFeatureCollection =
  features :: "GeoJSONFeature list"

text \<open>
  \<^verbatim>\<open>types.ts\<close> declares the tags of a place a \<^verbatim>\<open>Record<string, string>\<close> and the
  fields read from them \<^verbatim>\<open>string | null\<close>. The cast that gives the tags this type
  (\<^verbatim>\<open>(props.tags || props) as Record<string, string>\<close>) is not checked, so at run
  time these fields hold whatever value the properties hold; they have the type
  \<^typ>\<open>jsvalue\<close> here, and \<open>None\<close> is \<^verbatim>\<open>null\<close>.
\<close>

record Address =
  street :: "jsvalue option"
  city :: "jsvalue option"
  postcode :: "jsvalue option"
  country :: string

record Contact =
  phone :: "jsvalue option"
  email :: "jsvalue option"
  website :: "jsvalue option"

text \<open>
  \<^verbatim>\<open>location\<close> is a \<^verbatim>\<open>GeoJSONPoint | null\<close>; its constant \<^verbatim>\<open>type: "Point"\<close> is left
  out and the coordinates kept.
\<close>

record ProcessedPlace =
  osm_id :: string
  osm_type :: string
  name :: string
  name_si :: "jsvalue option"
  name_ta :: "jsvalue option"
  category :: string
  subcategory :: jsvalue
  geometry :: "GeoJSONGeometry option"
  location :: "position option"
  tags :: jsvalue
  address :: Address
  contact :: Contact
  opening_hours :: "jsvalue option"
  wheelchair :: "jsvalue option"
  description :: "jsvalue option"
  fetched_at :: Date
  source :: string
  created_at :: "Date option"

record StorageResult =
  inserted :: nat
  updated :: nat
  errors :: nat

datatype error = TypeError | NotConnected | MongoError

subsection \<open>JavaScript truthiness, property reads, \<^verbatim>\<open>||\<close> and \<^verbatim>\<open>String()\<close>\<close>

definition truthyValue :: "jsvalue option \<Rightarrow> bool" where
  "truthyValue v =
     (case v of
        None \<Rightarrow> False
      | Some (JNum n) \<Rightarrow> n \<noteq> Num 0 \<and> n \<noteq> NaN
      | Some (JStr s) \<Rightarrow> s \<noteq> []
      | Some (JObj m) \<Rightarrow> True)"

text \<open>\<^verbatim>\<open>a || b\<close>, and \<^verbatim>\<open>a || d\<close> where \<^verbatim>\<open>d\<close> is never \<^verbatim>\<open>undefined\<close>.\<close>

definition orValue :: "jsvalue option \<Rightarrow> jsvalue option \<Rightarrow> jsvalue option" where
  "orValue a b = (if truthyValue a then a else b)"

definition valueOr :: "jsvalue option \<Rightarrow> jsvalue \<Rightarrow> jsvalue" where
  "valueOr a d = (case a of None \<Rightarrow> d | Some v \<Rightarrow> if truthyValue (Some v) then v else d)"

text \<open>
  \<^verbatim>\<open>v.key\<close> and \<^verbatim>\<open>v["key"]\<close> for the keys the normalizer reads: a number or a string
  has none of them.
\<close>

definition getProp :: "jsvalue \<Rightarrow> string \<Rightarrow> jsvalue option" where
  "getProp v k = (case v of JObj m \<Rightarrow> map_of m k | _ \<Rightarrow> None)"

definition jsString :: "(number \<Rightarrow> string) \<Rightarrow> jsvalue option \<Rightarrow> string" where
  "jsString numToString v =
     (case v of
        None \<Rightarrow> ''undefined''
      | Some (JNum n) \<Rightarrow> numToString n
      | Some (JStr s) \<Rightarrow> s
      | Some (JObj m) \<Rightarrow> ''[object Object]'')"

subsection \<open>osmFetcher.ts: the normalizer\<close>

text \<open>
  \<^verbatim>\<open>coords.forEach(coord => { sumLon += coord[0]; sumLat += coord[1]; })\<close> and the
  final division, after the test \<^verbatim>\<open>coords.length === 0\<close>.
\<close>

definition centroidOf :: "position list \<Rightarrow> position option" where
  "centroidOf coords =
     (if length coords = 0 then None
      else let sumLon = fold (\<lambda>coord s. numAdd s (fst coord)) coords (Num 0);
               sumLat = fold (\<lambda>coord s. numAdd s (snd coord)) coords (Num 0)
           in Some (numDivLength sumLon (length coords), numDivLength sumLat (length coords)))"

text \<open>
  \<^verbatim>\<open>calculateCentroid\<close>. \<^verbatim>\<open>geometry.coordinates[0]\<close> of an empty array is
  \<^verbatim>\<open>undefined\<close>, and reading \<^verbatim>\<open>.length\<close> or \<^verbatim>\<open>[0]\<close> of it throws a TypeError. For a
  Point no branch assigns \<^verbatim>\<open>coords\<close>, which stays \<^verbatim>\<open>[]\<close>.
\<close>

fun calculateCentroid :: "GeoJSONGeometry \<Rightarrow> error + position option" where
  "calculateCentroid (Polygon rings) =
     (case rings of [] \<Rightarrow> Inl TypeError | ring # _ \<Rightarrow> Inr (centroidOf ring))"
| "calculateCentroid (LineString coords) = Inr (centroidOf coords)"
| "calculateCentroid (MultiPolygon polygons) =
     (case polygons of
        [] \<Rightarrow> Inl TypeError
      | polygon # _ \<Rightarrow>
          (case polygon of [] \<Rightarrow> Inl TypeError | ring # _ \<Rightarrow> Inr (centroidOf ring)))"
| "calculateCentroid (Point c) = Inr (centroidOf [])"

definition extractOsmType :: "(number \<Rightarrow> string) \<Rightarrow> jsvalue option \<Rightarrow> string" where
  "extractOsmType numToString i =
     (if \<not> truthyValue i then ''unknown''
      else let part0 = takeWhile (\<lambda>c. c \<noteq> CHR ''/'') (jsString numToString i)
           in if part0 \<noteq> [] then part0 else ''unknown'')"

definition determineCategory :: "jsvalue \<Rightarrow> string" where
  "determineCategory tgs =
     (if truthyValue (getProp tgs ''tourism'') then ''tourism''
      else if truthyValue (getProp tgs ''amenity'') then ''amenity''
      else if truthyValue (getProp tgs ''historic'') then ''historic''
      else if truthyValue (getProp tgs ''natural'') then ''natural''
      else if truthyValue (getProp tgs ''leisure'') then ''leisure''
      else ''other'')"

definition determineSubcategory :: "jsvalue \<Rightarrow> jsvalue" where
  "determineSubcategory tgs =
     valueOr
       (orValue (orValue (orValue (orValue (getProp tgs ''tourism'') (getProp tgs ''amenity''))
          (getProp tgs ''historic'')) (getProp tgs ''natural'')) (getProp tgs ''leisure''))
       (JStr ''unknown'')"

text \<open>
  \<^verbatim>\<open>const tags = (props.tags || props) as Record<string, string>\<close>: the value of
  \<^verbatim>\<open>props.tags\<close> when it is truthy, the properties object itself otherwise.
\<close>

definition tagsOf :: "(string \<times> jsvalue) list \<Rightarrow> jsvalue" where
  "tagsOf props = valueOr (map_of props ''tags'') (JObj props)"

text \<open>The first statement group of the \<^verbatim>\<open>map\<close> callback: the representative point.\<close>

definition resolveCoordinates :: "GeoJSONGeometry option \<Rightarrow> error + position option" where
  "resolveCoordinates g =
     (case g of
        None \<Rightarrow> Inr None
      | Some (Point c) \<Rightarrow> Inr (Some c)
      | Some (Polygon rings) \<Rightarrow> calculateCentroid (Polygon rings)
      | Some (LineString coords) \<Rightarrow> calculateCentroid (LineString coords)
      | Some (MultiPolygon polygons) \<Rightarrow> Inr None)"

text \<open>The callback of \<^verbatim>\<open>geojson.features.map\<close>; \<open>now\<close> is the value of \<^verbatim>\<open>new Date()\<close>.\<close>

definition processFeature ::
  "(number \<Rightarrow> string) \<Rightarrow> Date \<Rightarrow> GeoJSONFeature \<Rightarrow> error + ProcessedPlace" where
  "processFeature numToString now feature =
     (case resolveCoordinates (feature_geometry feature) of
        Inl e \<Rightarrow> Inl e
      | Inr coordinates \<Rightarrow>
          let props = feature_properties feature;
              tgs = tagsOf props
          in Inr \<lparr>
               osm_id = jsString numToString
                 (orValue (orValue (feature_id feature) (map_of props ''id'')) (Some (JStr []))),
               osm_type = jsString numToString
                 (orValue (map_of props ''type'')
                    (Some (JStr (extractOsmType numToString (feature_id feature))))),
               name = jsString numToString
                 (orValue (orValue (getProp tgs ''name'') (getProp tgs ''name:en''))
                    (Some (JStr ''Unnamed''))),
               name_si = orValue (getProp tgs ''name:si'') None,
               name_ta = orValue (getProp tgs ''name:ta'') None,
               category = determineCategory tgs,
               subcategory = determineSubcategory tgs,
               geometry = feature_geometry feature,
               location = coordinates,
               tags = tgs,
               address = \<lparr>
                 street = orValue (getProp tgs ''addr:street'') None,
                 city = orValue (getProp tgs ''addr:city'') None,
                 postcode = orValue (getProp tgs ''addr:postcode'') None,
                 country = ''Sri Lanka''\<rparr>,
               contact = \<lparr>
                 phone =
                   orValue (orValue (getProp tgs ''phone'') (getProp tgs ''contact:phone'')) None,
                 email =
                   orValue (orValue (getProp tgs ''email'') (getProp tgs ''contact:email'')) None,
                 website =
                   orValue (orValue (getProp tgs ''website'') (getProp tgs ''contact:website''))
                     None\<rparr>,
               opening_hours = orValue (getProp tgs ''opening_hours'') None,
               wheelchair = orValue (getProp tgs ''wheelchair'') None,
               description = orValue (getProp tgs ''description'') None,
               fetched_at = now,
               source = ''OpenStreetMap'',
               created_at = None\<rparr>)"

text \<open>
  \<^verbatim>\<open>Array.prototype.map\<close> with a callback that may throw: the first exception ends the
  call. \<open>clock 0\<close> is the next reading of the clock.
\<close>

fun mapFeatures ::
  "(number \<Rightarrow> string) \<Rightarrow> (nat \<Rightarrow> Date) \<Rightarrow> GeoJSONFeature list \<Rightarrow> error + ProcessedPlace list" where
  "mapFeatures numToString clock [] = Inr []"
| "mapFeatures numToString clock (feature # rest) =
     (case processFeature numToString (clock 0) feature of
        Inl e \<Rightarrow> Inl e
      | Inr p \<Rightarrow>
          (case mapFeatures numToString (\<lambda>n. clock (Suc n)) rest of
             Inl e \<Rightarrow> Inl e
           | Inr ps \<Rightarrow> Inr (p # ps)))"

definition processForMongoDB ::
  "(number \<Rightarrow> string) \<Rightarrow> (nat \<Rightarrow> Date) \<Rightarrow> GeoJSONFeatureCollection \<Rightarrow> error + ProcessedPlace list" where
  "processForMongoDB numToString clock geojson =
     (case mapFeatures numToString clock (features geojson) of
        Inl e \<Rightarrow> Inl e
      | Inr processedFeatures \<Rightarrow>
          Inr (filter (\<lambda>f. location f \<noteq> None) processedFeatures))"

text \<open>
  The statements of the specification, in its words.

  Categories. A tag map as the specification has it (string keys, string values) and
  the object that carries it; the priority order of the tag keys; the first of them
  present with a non-empty value; for an object with values of any kind, the first of
  them whose value is truthy.
\<close>

definition tagObject :: "(string \<times> string) list \<Rightarrow> jsvalue" where
  "tagObject tgs = JObj (map (\<lambda>(k, s). (k, JStr s)) tgs)"

definition categoryPriority :: "string list" where
  "categoryPriority = [''tourism'', ''amenity'', ''historic'', ''natural'', ''leisure'']"

definition presentNonEmpty :: "(string \<times> string) list \<Rightarrow> string \<Rightarrow> bool" where
  "presentNonEmpty tgs k = (case map_of tgs k of None \<Rightarrow> False | Some s \<Rightarrow> s \<noteq> [])"

definition firstPresentKey :: "(string \<times> string) list \<Rightarrow> string option" where
  "firstPresentKey tgs = find (presentNonEmpty tgs) categoryPriority"

definition firstTruthyKey :: "jsvalue \<Rightarrow> string option" where
  "firstTruthyKey tgs = find (\<lambda>k. truthyValue (getProp tgs k)) categoryPriority"

text \<open>
  Centroids. The arithmetic mean of a list of vertices with real coordinates, and the
  vertex of doubles with given finite values. The mean as doubles compute it: the
  numbers added from the left, starting at 0, and the sum divided by their count. A
  list of reals is summed and averaged without rounding when every partial sum and
  the quotient are doubles.
\<close>

definition arithmeticMean :: "(real \<times> real) list \<Rightarrow> real \<times> real" where
  "arithmeticMean vs =
     (sum_list (map fst vs) / real (length vs), sum_list (map snd vs) / real (length vs))"

definition finitePosition :: "real \<times> real \<Rightarrow> position" where
  "finitePosition v = (Num (fst v), Num (snd v))"

definition doubleMean :: "number list \<Rightarrow> number" where
  "doubleMean xs = numDivLength (foldl numAdd (Num 0) xs) (length xs)"

fun sumsExact :: "real \<Rightarrow> real list \<Rightarrow> bool" where
  "sumsExact a [] = True"
| "sumsExact a (x # xs) = (representable (a + x) \<and> sumsExact (a + x) xs)"

definition meanExact :: "real list \<Rightarrow> bool" where
  "meanExact xs = (sumsExact 0 xs \<and> representable (sum_list xs / real (length xs)))"

text \<open>
  Filtering. A geometry that the location rules resolve and whose vertex list is not
  empty: a Point; a Polygon, by its outer ring; a LineString; a MultiPolygon, by the
  outer ring of its first polygon.
\<close>

fun resolvableNonEmpty :: "GeoJSONGeometry option \<Rightarrow> bool" where
  "resolvableNonEmpty None = False"
| "resolvableNonEmpty (Some (Point c)) = True"
| "resolvableNonEmpty (Some (Polygon rings)) = (case rings of [] \<Rightarrow> False | ring # _ \<Rightarrow> ring \<noteq> [])"
| "resolvableNonEmpty (Some (LineString coords)) = (coords \<noteq> [])"
| "resolvableNonEmpty (Some (MultiPolygon polygons)) =
     (case polygons of (ring # _) # _ \<Rightarrow> ring \<noteq> [] | _ \<Rightarrow> False)"

text \<open>Sample features for concrete evaluations.\<close>

definition squareRing :: "position list" where
  "squareRing = [(Num 0, Num 0), (Num 2, Num 0), (Num 2, Num 2), (Num 0, Num 2)]"

definition museumTags :: "(string \<times> jsvalue) list" where
  "museumTags =
     [(''tags'', JObj [(''tourism'', JStr ''museum''), (''amenity'', JStr ''cafe'')])]"

definition multiPolygonFeature :: GeoJSONFeature where
  "multiPolygonFeature =
     \<lparr>feature_id = Some (JStr ''relation/7''),
      feature_geometry = Some (MultiPolygon [[squareRing]]),
      feature_properties = museumTags\<rparr>"

definition polygonFeature :: GeoJSONFeature where
  "polygonFeature =
     \<lparr>feature_id = Some (JStr ''way/9''),
      feature_geometry = Some (Polygon [squareRing]),
      feature_properties = museumTags\<rparr>"

definition pointFeature :: GeoJSONFeature where
  "pointFeature =
     \<lparr>feature_id = Some (JStr ''node/12345''),
      feature_geometry = Some (Point (Num 80, Num 7)),
      feature_properties = museumTags\<rparr>"

definition untaggedFeature :: GeoJSONFeature where
  "untaggedFeature =
     \<lparr>feature_id = Some (JStr ''node/5''),
      feature_geometry = Some (Point (Num 80, Num 7)),
      feature_properties = [(''tourism'', JNum (Num 5))]\<rparr>"

definition sampleClock :: "nat \<Rightarrow> Date" where
  "sampleClock n = 1000 + n"

subsection \<open>mongoStorage.ts: the store\<close>

text \<open>
  The database is an external service. \<^verbatim>\<open>this.collection\<close> is \<^verbatim>\<open>null\<close> until
  \<^verbatim>\<open>connect\<close>; afterwards it stands for the collection, modelled as the list of the
  stored documents in insertion order. A stored document has the fields of a
  \<^verbatim>\<open>ProcessedPlace\<close>, \<^verbatim>\<open>created_at\<close> included.

  \<^verbatim>\<open>collection.updateOne({osm_id}, {$set: feature, $setOnInsert: {created_at}}, {upsert: true})\<close>
  follows the documented behaviour of MongoDB. The first document with the given
  \<^verbatim>\<open>osm_id\<close> is matched and every field of \<^verbatim>\<open>feature\<close> is assigned to it; it counts as
  modified when it changed. Without a match a document is inserted with the fields of
  \<^verbatim>\<open>feature\<close> and the fields of \<^verbatim>\<open>$setOnInsert\<close>. An update whose \<^verbatim>\<open>$set\<close> and
  \<^verbatim>\<open>$setOnInsert\<close> name the same path is refused, which happens when \<^verbatim>\<open>feature\<close>
  carries the optional \<^verbatim>\<open>created_at\<close>; the other write errors the server may raise
  for a record (a constraint of an index on its fields) are the parameter \<open>rejects\<close>.
  A refused write leaves the collection as it was.
\<close>

record UpdateResult =
  matchedCount :: nat
  modifiedCount :: nat
  upsertedCount :: nat

record MongoDBStorage =
  collection :: "ProcessedPlace list option"

definition applySet :: "ProcessedPlace \<Rightarrow> ProcessedPlace \<Rightarrow> ProcessedPlace" where
  "applySet feature doc = feature\<lparr>created_at := created_at doc\<rparr>"

fun upsertDocument ::
  "Date \<Rightarrow> ProcessedPlace \<Rightarrow> ProcessedPlace list \<Rightarrow> ProcessedPlace list \<times> UpdateResult" where
  "upsertDocument now feature [] =
     ([feature\<lparr>created_at := Some now\<rparr>],
      \<lparr>matchedCount = 0, modifiedCount = 0, upsertedCount = 1\<rparr>)"
| "upsertDocument now feature (doc # docs) =
     (if osm_id doc = osm_id feature
      then (applySet feature doc # docs,
            \<lparr>matchedCount = 1,
             modifiedCount = (if applySet feature doc = doc then 0 else 1),
             upsertedCount = 0\<rparr>)
      else (case upsertDocument now feature docs of
              (docs', result) \<Rightarrow> (doc # docs', result)))"

definition writeFails :: "(ProcessedPlace \<Rightarrow> bool) \<Rightarrow> ProcessedPlace \<Rightarrow> bool" where
  "writeFails rejects feature = (created_at feature \<noteq> None \<or> rejects feature)"

definition updateOne ::
  "(ProcessedPlace \<Rightarrow> bool) \<Rightarrow> Date \<Rightarrow> ProcessedPlace \<Rightarrow> ProcessedPlace list
     \<Rightarrow> error + ProcessedPlace list \<times> UpdateResult" where
  "updateOne rejects now feature docs =
     (if writeFails rejects feature then Inl MongoError
      else Inr (upsertDocument now feature docs))"

text \<open>
  The \<^verbatim>\<open>for\<close> loop of \<^verbatim>\<open>storeFeatures\<close> with its \<^verbatim>\<open>try\<close>/\<^verbatim>\<open>catch\<close>. \<open>clock 0\<close> is
  the value of \<^verbatim>\<open>new Date()\<close> in this iteration.
\<close>

fun storeLoop ::
  "(ProcessedPlace \<Rightarrow> bool) \<Rightarrow> (nat \<Rightarrow> Date) \<Rightarrow> ProcessedPlace list \<Rightarrow> ProcessedPlace list
     \<Rightarrow> StorageResult \<Rightarrow> ProcessedPlace list \<times> StorageResult" where
  "storeLoop rejects clock [] docs results = (docs, results)"
| "storeLoop rejects clock (feature # rest) docs results =
     (case updateOne rejects (clock 0) feature docs of
        Inr (docs', result) \<Rightarrow>
          storeLoop rejects (\<lambda>n. clock (Suc n)) rest docs'
            (if upsertedCount result > 0 then results\<lparr>inserted := inserted results + 1\<rparr>
             else if modifiedCount result > 0 then results\<lparr>updated := updated results + 1\<rparr>
             else results)
      | Inl e \<Rightarrow>
          storeLoop rejects (\<lambda>n. clock (Suc n)) rest docs
            (results\<lparr>errors := errors results + 1\<rparr>))"

definition storeFeatures ::
  "(ProcessedPlace \<Rightarrow> bool) \<Rightarrow> (nat \<Rightarrow> Date) \<Rightarrow> MongoDBStorage \<Rightarrow> ProcessedPlace list
     \<Rightarrow> error + StorageResult \<times> MongoDBStorage" where
  "storeFeatures rejects clock this fs =
     (case collection this of
        None \<Rightarrow> Inl NotConnected
      | Some docs \<Rightarrow>
          (case storeLoop rejects clock fs docs \<lparr>inserted = 0, updated = 0, errors = 0\<rparr> of
             (docs', results) \<Rightarrow> Inr (results, this\<lparr>collection := Some docs'\<rparr>)))"

text \<open>Sample records for concrete evaluations.\<close>

definition samplePlace :: "string \<Rightarrow> string \<Rightarrow> ProcessedPlace" where
  "samplePlace i n =
     \<lparr>osm_id = i, osm_type = ''node'', name = n, name_si = None, name_ta = None,
      category = ''tourism'', subcategory = JStr ''museum'',
      geometry = Some (Point (Num 80, Num 7)), location = Some (Num 80, Num 7),
      tags = JObj [(''tourism'', JStr ''museum'')],
      address = \<lparr>street = None, city = None, postcode = None, country = ''Sri Lanka''\<rparr>,
      contact = \<lparr>phone = None, email = None, website = None\<rparr>,
      opening_hours = None, wheelchair = None, description = None,
      fetched_at = 1000, source = ''OpenStreetMap'', created_at = None\<rparr>"

definition anonymousFeature :: "number \<Rightarrow> GeoJSONFeature" where
  "anonymousFeature lon =
     \<lparr>feature_id = None,
      feature_geometry = Some (Point (lon, Num 7)),
      feature_properties = museumTags\<rparr>"

definition sampleBatch :: "ProcessedPlace list" where
  "sampleBatch =
     [samplePlace ''node/1'' ''A'', samplePlace ''node/2'' ''B'', samplePlace ''node/3'' ''C'',
      samplePlace ''node/4'' ''D'', samplePlace ''node/5'' ''E'']"

definition sampleRejects :: "ProcessedPlace \<Rightarrow> bool" where
  "sampleRejects f = (osm_id f = ''node/3'')"


section \<open>Doubles: properties of the rounding\<close>

lemma set_normalExponents: "set normalExponents = {-1022..1023}"
  unfolding normalExponents_def by (rule set_upto)

lemma find_unique:
  assumes "e \<in> set xs" and "P e" and "\<forall>y \<in> set xs. P y \<longrightarrow> y = e"
  shows "find P xs = Some e"
  using assms
proof (induction xs)
  case Nil
  then show ?case by simp
next
  case (Cons a xs)
  show ?case
  proof (cases "P a")
    case True
    from Cons.prems(3) True have "a = e" by simp
    with True show ?thesis by simp
  next
    case False
    from Cons.prems(1,2) False have mem: "e \<in> set xs"
      by (metis set_ConsD)
    from Cons.prems(3) have all: "\<forall>y \<in> set xs. P y \<longrightarrow> y = e"
      by (metis list.set_intros(2))
    from Cons.IH [OF mem Cons.prems(2) all] have "find P xs = Some e" .
    with False show ?thesis by (simp only: find.simps if_False)
  qed
qed

text \<open>A real lies in one binade only.\<close>

lemma binade_unique:
  fixes x :: real
  assumes "2 powi e \<le> \<bar>x\<bar>" and "\<bar>x\<bar> < 2 powi (e + 1)"
    and "2 powi y \<le> \<bar>x\<bar>" and "\<bar>x\<bar> < 2 powi (y + 1)"
  shows "y = e"
proof (rule ccontr)
  assume "y \<noteq> e"
  then consider "y + 1 \<le> e" | "e + 1 \<le> y" by linarith
  then show False
  proof cases
    case 1
    then have "(2::real) powi (y + 1) \<le> 2 powi e"
      by (intro power_int_increasing) simp_all
    with assms(1,4) show False by linarith
  next
    case 2
    then have "(2::real) powi (e + 1) \<le> 2 powi y"
      by (intro power_int_increasing) simp_all
    with assms(2,3) show False by linarith
  qed
qed

lemma binade_eq:
  assumes "2 powi e \<le> \<bar>x\<bar>" and "\<bar>x\<bar> < 2 powi (e + 1)" and "-1022 \<le> e" and "e \<le> 1023"
  shows "binade x = e"
proof -
  have "find (\<lambda>e. 2 powi e \<le> \<bar>x\<bar> \<and> \<bar>x\<bar> < 2 powi (e + 1)) normalExponents = Some e"
  proof (rule find_unique)
    show "e \<in> set normalExponents"
      using assms(3,4) by (simp add: set_normalExponents)
    show "2 powi e \<le> \<bar>x\<bar> \<and> \<bar>x\<bar> < 2 powi (e + 1)"
      using assms(1,2) by simp
    show "\<forall>y \<in> set normalExponents. 2 powi y \<le> \<bar>x\<bar> \<and> \<bar>x\<bar> < 2 powi (y + 1) \<longrightarrow> y = e"
      using binade_unique [OF assms(1,2)] by blast
  qed
  then show ?thesis
    by (simp add: binade_def)
qed

lemma binade_subnormal:
  assumes "\<bar>x\<bar> < 2 powi (-1022)"
  shows "binade x = -1022"
proof -
  have no: "\<not> (2 powi e \<le> \<bar>x\<bar>)" if "-1022 \<le> e" for e
  proof -
    from that have "(2::real) powi (-1022) \<le> 2 powi e"
      by (intro power_int_increasing) simp_all
    with assms show ?thesis by linarith
  qed
  have "\<nexists>e. e \<in> set normalExponents \<and> 2 powi e \<le> \<bar>x\<bar> \<and> \<bar>x\<bar> < 2 powi (e + 1)"
  proof
    assume "\<exists>e. e \<in> set normalExponents \<and> 2 powi e \<le> \<bar>x\<bar> \<and> \<bar>x\<bar> < 2 powi (e + 1)"
    then obtain e where "e \<in> set normalExponents" and le: "2 powi e \<le> \<bar>x\<bar>"
      by blast
    then have "-1022 \<le> e"
      by (simp add: set_normalExponents)
    with no le show False by blast
  qed
  then have "find (\<lambda>e. 2 powi e \<le> \<bar>x\<bar> \<and> \<bar>x\<bar> < 2 powi (e + 1)) normalExponents = None"
    unfolding find_None_iff .
  then show ?thesis
    by (simp add: binade_def)
qed

lemma roundHalfEven_of_int: "roundHalfEven (of_int k) = k"
  by (simp add: roundHalfEven_def)

text \<open>A multiple of the spacing of its binade, below the overflow bound, is a double.\<close>

lemma roundDouble_exact:
  assumes "\<bar>x\<bar> < 2 ^ 1024" and "x = of_int m * 2 powi (binade x - 52)"
  shows "roundDouble x = Num x"
proof -
  define q where "q = (2::real) powi (binade x - 52)"
  have q: "q \<noteq> 0" by (simp add: q_def)
  have x: "x = of_int m * q" using assms(2) by (simp add: q_def)
  have "x / q = of_int m"
    using q by (simp add: x)
  then have r: "q * of_int (roundHalfEven (x / q)) = x"
    by (simp add: roundHalfEven_of_int x)
  have nov: "\<not> 2 ^ 1024 \<le> \<bar>x\<bar>"
    using assms(1) by linarith
  show ?thesis
    unfolding roundDouble_def Let_def q_def [symmetric] r
    using nov by (simp only: if_False)
qed

lemma below_overflow:
  fixes x :: real
  assumes "\<bar>x\<bar> < 2 ^ 54"
  shows "\<bar>x\<bar> < 2 ^ 1024" and "\<not> 2 ^ 1024 \<le> \<bar>x\<bar>"
proof -
  have "(2::real) ^ 54 < 2 ^ 1024"
    by (rule power_strict_increasing) simp_all
  with assms show "\<bar>x\<bar> < 2 ^ 1024" by linarith
  then show "\<not> 2 ^ 1024 \<le> \<bar>x\<bar>" by linarith
qed

lemma binade_0: "binade 0 = -1022"
  by (rule binade_subnormal) simp

lemma binade_1: "binade 1 = 0"
  by (rule binade_eq) simp_all

lemma binade_2: "binade 2 = 1"
  by (rule binade_eq) simp_all

lemma binade_4: "binade 4 = 2"
  by (rule binade_eq) simp_all

lemma binade_2p52: "binade 4503599627370496 = 52"
  by (rule binade_eq) simp_all

lemma binade_2p53: "binade 9007199254740992 = 53"
  by (rule binade_eq) simp_all

lemma binade_2p53_1: "binade 9007199254740993 = 53"
  by (rule binade_eq) simp_all

lemma roundDouble_0: "roundDouble 0 = Num 0"
  by (rule roundDouble_exact [where m = 0]) simp_all

lemma roundDouble_1: "roundDouble 1 = Num 1"
  by (rule roundDouble_exact [where m = "2 ^ 52"])
    (simp_all add: binade_1 power_int_minus below_overflow)

lemma roundDouble_2: "roundDouble 2 = Num 2"
  by (rule roundDouble_exact [where m = "2 ^ 52"])
    (simp_all add: binade_2 power_int_minus below_overflow)

lemma roundDouble_4: "roundDouble 4 = Num 4"
  by (rule roundDouble_exact [where m = "2 ^ 52"])
    (simp_all add: binade_4 power_int_minus below_overflow)

lemma roundDouble_2p52: "roundDouble 4503599627370496 = Num 4503599627370496"
  by (rule roundDouble_exact [where m = "2 ^ 52"])
    (simp_all add: binade_2p52 below_overflow)

lemma roundDouble_2p53: "roundDouble 9007199254740992 = Num 9007199254740992"
  by (rule roundDouble_exact [where m = "2 ^ 52"])
    (simp_all add: binade_2p53 below_overflow)

text \<open>
  \<^verbatim>\<open>2^53 + 1\<close> lies halfway between the doubles \<^verbatim>\<open>2^53\<close> and \<^verbatim>\<open>2^53 + 2\<close> and
  rounds to the first, whose significand is even.
\<close>

lemma roundDouble_2p53_1: "roundDouble 9007199254740993 = Num 9007199254740992"
proof -
  have r: "roundHalfEven (9007199254740993 / 2) = 4503599627370496"
    by (simp add: roundHalfEven_def Let_def)
  have a: "\<not> 2 ^ 1024 \<le> \<bar>9007199254740993::real\<bar>"
    by (rule below_overflow) simp
  have b: "\<not> 2 ^ 1024 \<le> \<bar>9007199254740992::real\<bar>"
    by (rule below_overflow) simp
  have q: "(2::real) powi (binade 9007199254740993 - 52) = 2"
    by (simp add: binade_2p53_1)
  show ?thesis
    unfolding roundDouble_def Let_def q r
    using a b by (simp only: if_False) simp
qed

section \<open>Query builder: properties\<close>

lemma length_pushFilters:
  "length (pushFilters key bboxStr tagsOpt filters) = length filters + 2 * listedValues tagsOpt"
proof -
  have "length (fold (\<lambda>tag fs. fs @ [filterClause ''node'' key bboxStr tag,
                                   filterClause ''way'' key bboxStr tag]) tagList fs0)
        = length fs0 + 2 * length tagList" for tagList fs0
    by (induction tagList arbitrary: fs0) simp_all
  then show ?thesis
    by (simp add: pushFilters_def listedValues_def split: option.split)
qed

lemma length_comprehensiveFilters:
  "length (comprehensiveFilters numToString this config) = 2 * totalListedValues config"
  by (simp add: comprehensiveFilters_def Let_def length_pushFilters totalListedValues_def)

lemma listedValues_addValues:
  "listedValues (addValues tagsOpt extra) = listedValues tagsOpt + length extra"
  by (simp add: listedValues_def addValues_def split: option.split)

lemma embeddedTimeout_single:
  "embeddedTimeout (buildKeyQuery key numToString this tagList) = Some 180"
  by (simp add: embeddedTimeout_def buildKeyQuery_def Let_def nl_def isDigit_def decimalValue_def)

lemma embeddedTimeout_comprehensive:
  "embeddedTimeout (buildComprehensiveQuery numToString this config) = Some 300"
  by (simp add: embeddedTimeout_def buildComprehensiveQuery_def nl_def isDigit_def decimalValue_def)

text \<open>The pushes of one block, written out.\<close>

lemma fold_push_clauses:
  \<open>fold (\<lambda>tag fs. fs @ [filterClause ''node'' key bboxStr tag,
                         filterClause ''way'' key bboxStr tag]) tagList filters
     = filters @ concat (map (\<lambda>tag.
         [''node["'' @ key @ ''"="'' @ tag @ ''"]('' @ bboxStr @ '');'',
          ''way["'' @ key @ ''"="'' @ tag @ ''"]('' @ bboxStr @ '');'']) tagList)\<close>
  by (induction tagList arbitrary: filters) (simp_all add: filterClause_def)

lemma pushFilters_clauses:
  "pushFilters key bboxStr tagsOpt filters = filters @ dimensionClauses key bboxStr tagsOpt"
  by (simp add: pushFilters_def dimensionClauses_def fold_push_clauses split: option.split)

lemma comprehensiveFilters_expected:
  "comprehensiveFilters numToString this config = expectedClauses numToString this config"
  by (simp add: comprehensiveFilters_def expectedClauses_def Let_def pushFilters_clauses)

lemma dimensionClauses_addValues:
  "dimensionClauses key bboxStr (addValues tagsOpt extra)
     = dimensionClauses key bboxStr tagsOpt @ dimensionClauses key bboxStr (Some extra)"
  by (simp add: dimensionClauses_def addValues_def split: option.split)

lemma length_dimensionClauses:
  "length (dimensionClauses key bboxStr tagsOpt) = 2 * listedValues tagsOpt"
  using length_pushFilters [of key bboxStr tagsOpt "[]"]
  by (simp add: pushFilters_clauses)

text \<open>The length of a joined string, and its growth when elements are inserted.\<close>

lemma length_join:
  "length (join sep xs) = sum_list (map length xs) + length sep * (length xs - 1)"
  by (induction sep xs rule: join.induct) simp_all

lemma length_join_insert:
  assumes "2 \<le> length ys" and "sep \<noteq> []"
  shows "length (join sep (xs @ zs)) < length (join sep (xs @ ys @ zs))"
proof -
  define a where "a = length sep * (length (xs @ zs) - 1)"
  define b where "b = length sep * (length (xs @ ys @ zs) - 1)"
  have "length (xs @ zs) - 1 < length (xs @ ys @ zs) - 1"
    using assms(1) by simp
  moreover have "0 < length sep"
    using assms(2) by simp
  ultimately have "a < b"
    unfolding a_def b_def by (rule mult_less_mono2)
  moreover have "length (join sep (xs @ zs)) = sum_list (map length (xs @ zs)) + a"
    unfolding a_def by (rule length_join)
  moreover have "length (join sep (xs @ ys @ zs)) = sum_list (map length (xs @ ys @ zs)) + b"
    unfolding b_def by (rule length_join)
  moreover have "sum_list (map length (xs @ zs)) \<le> sum_list (map length (xs @ ys @ zs))"
    by simp
  ultimately show ?thesis
    by linarith
qed

lemma length_join_addValues:
  assumes "extra \<noteq> []"
  shows "length (join (nl @ ''  '') (before @ dimensionClauses key bboxStr tagsOpt @ after))
       < length (join (nl @ ''  '')
           (before @ dimensionClauses key bboxStr (addValues tagsOpt extra) @ after))"
proof -
  obtain x xs where "extra = x # xs"
    using assms by (cases extra) simp_all
  then have two: "2 \<le> length (dimensionClauses key bboxStr (Some extra))"
    by (simp add: length_dimensionClauses listedValues_def)
  have sep: "nl @ ''  '' \<noteq> []"
    by (simp add: nl_def)
  have "length (join (nl @ ''  '') ((before @ dimensionClauses key bboxStr tagsOpt) @ after))
       < length (join (nl @ ''  '')
           ((before @ dimensionClauses key bboxStr tagsOpt)
            @ dimensionClauses key bboxStr (Some extra) @ after))"
    using two sep by (rule length_join_insert)
  then show ?thesis
    by (simp add: dimensionClauses_addValues)
qed

lemma length_buildComprehensiveQuery:
  "length (buildComprehensiveQuery numToString this config)
     = 60 + length (join (nl @ ''  '') (expectedClauses numToString this config))"
  by (simp add: buildComprehensiveQuery_def comprehensiveFilters_expected nl_def)

lemma query_grows:
  assumes "extra \<noteq> []"
  shows "length (buildComprehensiveQuery numToString this config)
          < length (buildComprehensiveQuery numToString this
              (config\<lparr>tourismTags := addValues (tourismTags config) extra\<rparr>))"
    and "length (buildComprehensiveQuery numToString this config)
          < length (buildComprehensiveQuery numToString this
              (config\<lparr>amenityTags := addValues (amenityTags config) extra\<rparr>))"
    and "length (buildComprehensiveQuery numToString this config)
          < length (buildComprehensiveQuery numToString this
              (config\<lparr>historicTags := addValues (historicTags config) extra\<rparr>))"
    and "length (buildComprehensiveQuery numToString this config)
          < length (buildComprehensiveQuery numToString this
              (config\<lparr>naturalTags := addValues (naturalTags config) extra\<rparr>))"
    and "length (buildComprehensiveQuery numToString this config)
          < length (buildComprehensiveQuery numToString this
              (config\<lparr>leisureTags := addValues (leisureTags config) extra\<rparr>))"
proof -
  let ?b = "getBboxString numToString this"
  let ?t = "dimensionClauses ''tourism'' ?b (tourismTags config)"
  let ?a = "dimensionClauses ''amenity'' ?b (amenityTags config)"
  let ?h = "dimensionClauses ''historic'' ?b (historicTags config)"
  let ?n = "dimensionClauses ''natural'' ?b (naturalTags config)"
  let ?l = "dimensionClauses ''leisure'' ?b (leisureTags config)"
  show "length (buildComprehensiveQuery numToString this config)
          < length (buildComprehensiveQuery numToString this
              (config\<lparr>tourismTags := addValues (tourismTags config) extra\<rparr>))"
    using length_join_addValues [OF assms, of "[]" "''tourism''" ?b "tourismTags config"
        "?a @ ?h @ ?n @ ?l"]
    by (simp add: length_buildComprehensiveQuery expectedClauses_def)
  show "length (buildComprehensiveQuery numToString this config)
          < length (buildComprehensiveQuery numToString this
              (config\<lparr>amenityTags := addValues (amenityTags config) extra\<rparr>))"
    using length_join_addValues [OF assms, of ?t "''amenity''" ?b "amenityTags config"
        "?h @ ?n @ ?l"]
    by (simp add: length_buildComprehensiveQuery expectedClauses_def)
  show "length (buildComprehensiveQuery numToString this config)
          < length (buildComprehensiveQuery numToString this
              (config\<lparr>historicTags := addValues (historicTags config) extra\<rparr>))"
    using length_join_addValues [OF assms, of "?t @ ?a" "''historic''" ?b "historicTags config"
        "?n @ ?l"]
    by (simp add: length_buildComprehensiveQuery expectedClauses_def)
  show "length (buildComprehensiveQuery numToString this config)
          < length (buildComprehensiveQuery numToString this
              (config\<lparr>naturalTags := addValues (naturalTags config) extra\<rparr>))"
    using length_join_addValues [OF assms, of "?t @ ?a @ ?h" "''natural''" ?b "naturalTags config"
        ?l]
    by (simp add: length_buildComprehensiveQuery expectedClauses_def)
  show "length (buildComprehensiveQuery numToString this config)
          < length (buildComprehensiveQuery numToString this
              (config\<lparr>leisureTags := addValues (leisureTags config) extra\<rparr>))"
    using length_join_addValues [OF assms, of "?t @ ?a @ ?h @ ?n" "''leisure''" ?b
        "leisureTags config" "[]"]
    by (simp add: length_buildComprehensiveQuery expectedClauses_def)
qed

text \<open>
  C8. The string \<^verbatim>\<open>buildComprehensiveQuery\<close> returns is its fixed header, the filter
  clauses joined, and its fixed footer, where every listed tag value of a dimension
  contributes one node clause followed by one way clause for that key, value and
  box, so that the number of clauses is twice the number of listed values. An absent
  or empty list contributes nothing and raises nothing. Adding values to the list of
  any dimension gives strictly more clauses and a strictly longer query.
\<close>

theorem comprehensive_clause_count:
  \<open>buildComprehensiveQuery numToString this config
     = nl @ ''[out:json][timeout:300];'' @ nl @ ''('' @ nl @ ''  ''
       @ join (nl @ ''  '') (comprehensiveFilters numToString this config) @ nl
       @ '');'' @ nl @ ''out body;'' @ nl @ ''>;'' @ nl @ ''out skel qt;'' @ nl
   \<and> comprehensiveFilters numToString this config = expectedClauses numToString this config
   \<and> length (comprehensiveFilters numToString this config) = 2 * totalListedValues config
   \<and> pushFilters key bboxStr (Some (tagList @ [tag])) filters
       = pushFilters key bboxStr (Some tagList) filters
         @ [''node["'' @ key @ ''"="'' @ tag @ ''"]('' @ bboxStr @ '');'',
            ''way["'' @ key @ ''"="'' @ tag @ ''"]('' @ bboxStr @ '');'']
   \<and> pushFilters key bboxStr None filters = filters
   \<and> pushFilters key bboxStr (Some []) filters = filters
   \<and> (extra \<noteq> [] \<longrightarrow>
        length (comprehensiveFilters numToString this config)
          < length (comprehensiveFilters numToString this
              (config\<lparr>tourismTags := addValues (tourismTags config) extra\<rparr>))
      \<and> length (comprehensiveFilters numToString this config)
          < length (comprehensiveFilters numToString this
              (config\<lparr>amenityTags := addValues (amenityTags config) extra\<rparr>))
      \<and> length (comprehensiveFilters numToString this config)
          < length (comprehensiveFilters numToString this
              (config\<lparr>historicTags := addValues (historicTags config) extra\<rparr>))
      \<and> length (comprehensiveFilters numToString this config)
          < length (comprehensiveFilters numToString this
              (config\<lparr>naturalTags := addValues (naturalTags config) extra\<rparr>))
      \<and> length (comprehensiveFilters numToString this config)
          < length (comprehensiveFilters numToString this
              (config\<lparr>leisureTags := addValues (leisureTags config) extra\<rparr>))
      \<and> length (buildComprehensiveQuery numToString this config)
          < length (buildComprehensiveQuery numToString this
              (config\<lparr>tourismTags := addValues (tourismTags config) extra\<rparr>))
      \<and> length (buildComprehensiveQuery numToString this config)
          < length (buildComprehensiveQuery numToString this
              (config\<lparr>amenityTags := addValues (amenityTags config) extra\<rparr>))
      \<and> length (buildComprehensiveQuery numToString this config)
          < length (buildComprehensiveQuery numToString this
              (config\<lparr>historicTags := addValues (historicTags config) extra\<rparr>))
      \<and> length (buildComprehensiveQuery numToString this config)
          < length (buildComprehensiveQuery numToString this
              (config\<lparr>naturalTags := addValues (naturalTags config) extra\<rparr>))
      \<and> length (buildComprehensiveQuery numToString this config)
          < length (buildComprehensiveQuery numToString this
              (config\<lparr>leisureTags := addValues (leisureTags config) extra\<rparr>)))\<close>
proof -
  have str: "buildComprehensiveQuery numToString this config
     = nl @ ''[out:json][timeout:300];'' @ nl @ ''('' @ nl @ ''  ''
       @ join (nl @ ''  '') (comprehensiveFilters numToString this config) @ nl
       @ '');'' @ nl @ ''out body;'' @ nl @ ''>;'' @ nl @ ''out skel qt;'' @ nl"
    by (simp add: buildComprehensiveQuery_def)
  have push: \<open>pushFilters key bboxStr (Some (tagList @ [tag])) filters
       = pushFilters key bboxStr (Some tagList) filters
         @ [''node["'' @ key @ ''"="'' @ tag @ ''"]('' @ bboxStr @ '');'',
            ''way["'' @ key @ ''"="'' @ tag @ ''"]('' @ bboxStr @ '');'']\<close>
    by (simp add: pushFilters_clauses dimensionClauses_def)
  have none: "pushFilters key bboxStr None filters = filters"
    "pushFilters key bboxStr (Some []) filters = filters"
    by (simp_all add: pushFilters_def)
  have more: "length (comprehensiveFilters numToString this config)
          < length (comprehensiveFilters numToString this
              (config\<lparr>tourismTags := addValues (tourismTags config) extra\<rparr>))
      \<and> length (comprehensiveFilters numToString this config)
          < length (comprehensiveFilters numToString this
              (config\<lparr>amenityTags := addValues (amenityTags config) extra\<rparr>))
      \<and> length (comprehensiveFilters numToString this config)
          < length (comprehensiveFilters numToString this
              (config\<lparr>historicTags := addValues (historicTags config) extra\<rparr>))
      \<and> length (comprehensiveFilters numToString this config)
          < length (comprehensiveFilters numToString this
              (config\<lparr>naturalTags := addValues (naturalTags config) extra\<rparr>))
      \<and> length (comprehensiveFilters numToString this config)
          < length (comprehensiveFilters numToString this
              (config\<lparr>leisureTags := addValues (leisureTags config) extra\<rparr>))"
    if "extra \<noteq> []"
    using that
    by (simp add: length_comprehensiveFilters totalListedValues_def listedValues_addValues)
  from str comprehensiveFilters_expected length_comprehensiveFilters push none more
    query_grows [of extra numToString this config]
  show ?thesis
    by blast
qed

theorem comprehensive_clause_count_witness:
  \<open>buildComprehensiveQuery sampleNumToString sampleBuilder noTags
     = nl @ ''[out:json][timeout:300];'' @ nl @ ''('' @ nl @ ''  '' @ nl
       @ '');'' @ nl @ ''out body;'' @ nl @ ''>;'' @ nl @ ''out skel qt;'' @ nl
   \<and> buildComprehensiveQuery sampleNumToString sampleBuilder
        (noTags\<lparr>tourismTags := addValues None [''museum'']\<rparr>)
     = nl @ ''[out:json][timeout:300];'' @ nl @ ''('' @ nl
       @ ''  node["tourism"="museum"](5,79,10,82);'' @ nl
       @ ''  way["tourism"="museum"](5,79,10,82);'' @ nl
       @ '');'' @ nl @ ''out body;'' @ nl @ ''>;'' @ nl @ ''out skel qt;'' @ nl
   \<and> length (comprehensiveFilters sampleNumToString sampleBuilder noTags) = 0
   \<and> length (comprehensiveFilters sampleNumToString sampleBuilder
        (noTags\<lparr>tourismTags := addValues None [''museum'']\<rparr>)) = 2
   \<and> [''museum''] \<noteq> []\<close>
proof -
  have box: "getBboxString sampleNumToString sampleBuilder = ''5,79,10,82''"
    by (simp add: getBboxString_def sampleBuilder_def sampleNumToString_def)
  have e0: "expectedClauses sampleNumToString sampleBuilder noTags = []"
    by (simp add: expectedClauses_def dimensionClauses_def noTags_def)
  have e1: \<open>expectedClauses sampleNumToString sampleBuilder
        (noTags\<lparr>tourismTags := addValues None [''museum'']\<rparr>)
      = [''node["tourism"="museum"](5,79,10,82);'', ''way["tourism"="museum"](5,79,10,82);'']\<close>
    by (simp add: expectedClauses_def dimensionClauses_def noTags_def addValues_def box)
  note t0 = comprehensive_clause_count
    [of sampleNumToString sampleBuilder noTags "''tourism''" "[]" "[]" "''museum''" "[]"
        "[''museum'']"]
  note t1 = comprehensive_clause_count
    [of sampleNumToString sampleBuilder "noTags\<lparr>tourismTags := addValues None [''museum'']\<rparr>"
        "''tourism''" "[]" "[]" "''museum''" "[]" "[''museum'']"]
  have s0: \<open>buildComprehensiveQuery sampleNumToString sampleBuilder noTags
     = nl @ ''[out:json][timeout:300];'' @ nl @ ''('' @ nl @ ''  '' @ nl
       @ '');'' @ nl @ ''out body;'' @ nl @ ''>;'' @ nl @ ''out skel qt;'' @ nl\<close>
    using t0 [THEN conjunct1] t0 [THEN conjunct2, THEN conjunct1] by (simp add: e0)
  have s1: \<open>buildComprehensiveQuery sampleNumToString sampleBuilder
        (noTags\<lparr>tourismTags := addValues None [''museum'']\<rparr>)
     = nl @ ''[out:json][timeout:300];'' @ nl @ ''('' @ nl
       @ ''  node["tourism"="museum"](5,79,10,82);'' @ nl
       @ ''  way["tourism"="museum"](5,79,10,82);'' @ nl
       @ '');'' @ nl @ ''out body;'' @ nl @ ''>;'' @ nl @ ''out skel qt;'' @ nl\<close>
    using t1 [THEN conjunct1] t1 [THEN conjunct2, THEN conjunct1] by (simp add: e1)
  have c0: "length (comprehensiveFilters sampleNumToString sampleBuilder noTags) = 0"
    using t0 [THEN conjunct2, THEN conjunct1] by (simp add: e0)
  have c1: "length (comprehensiveFilters sampleNumToString sampleBuilder
        (noTags\<lparr>tourismTags := addValues None [''museum'']\<rparr>)) = 2"
    using t1 [THEN conjunct2, THEN conjunct1] by (simp add: e1)
  from s0 s1 c0 c1 show ?thesis
    by simp
qed

text \<open>
  C9, as stated, fails: the budget of the composite query is not in proportion to its
  number of clauses. Two configurations with two and with four clauses carry the same
  budget.
\<close>

theorem budget_not_proportional:
  "length (comprehensiveFilters sampleNumToString sampleBuilder
      (noTags\<lparr>tourismTags := Some [''museum'']\<rparr>)) = 2
   \<and> length (comprehensiveFilters sampleNumToString sampleBuilder
      (noTags\<lparr>tourismTags := Some [''museum'', ''hotel'']\<rparr>)) = 4
   \<and> embeddedTimeout (buildComprehensiveQuery sampleNumToString sampleBuilder
      (noTags\<lparr>tourismTags := Some [''museum'']\<rparr>)) = Some 300
   \<and> embeddedTimeout (buildComprehensiveQuery sampleNumToString sampleBuilder
      (noTags\<lparr>tourismTags := Some [''museum'', ''hotel'']\<rparr>)) = Some 300
   \<and> \<not> budgetProportional sampleNumToString sampleBuilder
        (noTags\<lparr>tourismTags := Some [''museum'']\<rparr>)
        (noTags\<lparr>tourismTags := Some [''museum'', ''hotel'']\<rparr>)"
  by (simp add: budgetProportional_def embeddedTimeout_comprehensive
      length_comprehensiveFilters totalListedValues_def listedValues_def noTags_def)

text \<open>
  C9, amended. The composite query carries the fixed budget 300 whatever the
  configuration, every single-dimension builder carries 180, and so the composite
  budget is the longer one.
\<close>

theorem comprehensive_budget_fixed_and_longer:
  "embeddedTimeout (buildComprehensiveQuery numToString this config) = Some 300
   \<and> embeddedTimeout (buildTourismQuery numToString this tagList) = Some 180
   \<and> embeddedTimeout (buildAmenityQuery numToString this tagList) = Some 180
   \<and> embeddedTimeout (buildHistoricQuery numToString this tagList) = Some 180
   \<and> embeddedTimeout (buildNaturalQuery numToString this tagList) = Some 180
   \<and> embeddedTimeout (buildLeisureQuery numToString this tagList) = Some 180
   \<and> the (embeddedTimeout (buildTourismQuery numToString this tagList))
       < the (embeddedTimeout (buildComprehensiveQuery numToString this config))"
  by (simp add: embeddedTimeout_comprehensive embeddedTimeout_single buildTourismQuery_def
      buildAmenityQuery_def buildHistoricQuery_def buildNaturalQuery_def buildLeisureQuery_def)

section \<open>Normalizer: properties\<close>

lemma getProp_tagObject:
  "getProp (tagObject tgs) k = map_option JStr (map_of tgs k)"
  by (simp add: getProp_def tagObject_def map_of_map)

lemma truthyValue_tagObject:
  "truthyValue (getProp (tagObject tgs) k) = presentNonEmpty tgs k"
  by (simp add: getProp_tagObject truthyValue_def presentNonEmpty_def split: option.split)

lemma firstTruthyKey_tagObject:
  "firstTruthyKey (tagObject tgs) = firstPresentKey tgs"
  by (simp add: firstTruthyKey_def firstPresentKey_def truthyValue_tagObject [abs_def])

lemma valueOr_truthy:
  "truthyValue a \<Longrightarrow> a = Some (valueOr a d)"
  by (cases a) (simp_all add: valueOr_def truthyValue_def)

lemma first_truthy_key:
  "case firstTruthyKey obj of
     None \<Rightarrow> determineCategory obj = ''other'' \<and> determineSubcategory obj = JStr ''unknown''
   | Some k \<Rightarrow> determineCategory obj = k \<and> getProp obj k = Some (determineSubcategory obj)"
proof -
  have falsy: "valueOr a d = d" if "\<not> truthyValue a" for a d
    using that by (cases a) (simp_all add: valueOr_def)
  show ?thesis
    by (simp add: firstTruthyKey_def categoryPriority_def determineCategory_def
        determineSubcategory_def orValue_def falsy valueOr_truthy [symmetric])
qed

lemma processFeature_location:
  "processFeature numToString now feature = Inr p \<Longrightarrow>
     resolveCoordinates (feature_geometry feature) = Inr (location p)"
  by (auto simp: processFeature_def Let_def split: sum.splits)

lemma processFeature_category:
  "processFeature numToString now feature = Inr p \<Longrightarrow>
     category p = determineCategory (tagsOf (feature_properties feature))
     \<and> subcategory p = determineSubcategory (tagsOf (feature_properties feature))"
  by (auto simp: processFeature_def Let_def split: sum.splits)

text \<open>
  C2. For every tag map the category is the first key of the priority order tourism,
  amenity, historic, natural, leisure that is present with a non-empty value, and the
  subcategory is the value of that key; with none of them present the pair is "other"
  and "unknown". A tag map with both tourism and amenity has the category "tourism",
  not "amenity". For an object whose values are not all strings the same holds with
  "truthy" for "present with a non-empty value". The normalized record carries these
  two results for the tags of the feature, which are \<^verbatim>\<open>properties.tags\<close> when that is
  a tag map and the properties themselves when it is absent.
\<close>

theorem category_by_priority:
  "(case firstPresentKey tgs of
      None \<Rightarrow> determineCategory (tagObject tgs) = ''other''
              \<and> determineSubcategory (tagObject tgs) = JStr ''unknown''
    | Some k \<Rightarrow> determineCategory (tagObject tgs) = k
              \<and> presentNonEmpty tgs k
              \<and> map_option JStr (map_of tgs k) = Some (determineSubcategory (tagObject tgs)))
   \<and> (presentNonEmpty tgs ''tourism'' \<and> presentNonEmpty tgs ''amenity'' \<longrightarrow>
        determineCategory (tagObject tgs) = ''tourism''
        \<and> determineCategory (tagObject tgs) \<noteq> ''amenity'')
   \<and> (case firstTruthyKey obj of
        None \<Rightarrow> determineCategory obj = ''other'' \<and> determineSubcategory obj = JStr ''unknown''
      | Some k \<Rightarrow> determineCategory obj = k \<and> truthyValue (getProp obj k)
                \<and> getProp obj k = Some (determineSubcategory obj))
   \<and> (processFeature numToString now feature = Inr p \<longrightarrow>
        category p = determineCategory (tagsOf (feature_properties feature))
        \<and> subcategory p = determineSubcategory (tagsOf (feature_properties feature)))
   \<and> (map_of (feature_properties feature) ''tags'' = Some (tagObject tgs) \<longrightarrow>
        tagsOf (feature_properties feature) = tagObject tgs)
   \<and> (map_of (feature_properties feature) ''tags'' = None \<longrightarrow>
        tagsOf (feature_properties feature) = JObj (feature_properties feature))"
proof -
  have general: "case firstTruthyKey obj of
        None \<Rightarrow> determineCategory obj = ''other'' \<and> determineSubcategory obj = JStr ''unknown''
      | Some k \<Rightarrow> determineCategory obj = k \<and> truthyValue (getProp obj k)
                \<and> getProp obj k = Some (determineSubcategory obj)" for obj
  proof (cases "firstTruthyKey obj")
    case None
    with first_truthy_key [of obj] show ?thesis by simp
  next
    case (Some k)
    then have "truthyValue (getProp obj k)"
      unfolding firstTruthyKey_def by (auto simp: find_Some_iff)
    with Some first_truthy_key [of obj] show ?thesis by simp
  qed
  have typed: "case firstPresentKey tgs of
      None \<Rightarrow> determineCategory (tagObject tgs) = ''other''
              \<and> determineSubcategory (tagObject tgs) = JStr ''unknown''
    | Some k \<Rightarrow> determineCategory (tagObject tgs) = k
              \<and> presentNonEmpty tgs k
              \<and> map_option JStr (map_of tgs k) = Some (determineSubcategory (tagObject tgs))"
  proof (cases "firstPresentKey tgs")
    case None
    with general [of "tagObject tgs"] show ?thesis
      by (simp add: firstTruthyKey_tagObject)
  next
    case (Some k)
    note g = general [of "tagObject tgs", unfolded firstTruthyKey_tagObject Some option.case]
    have "presentNonEmpty tgs k"
      using g [THEN conjunct2, THEN conjunct1] by (simp only: truthyValue_tagObject)
    moreover have "map_option JStr (map_of tgs k) = Some (determineSubcategory (tagObject tgs))"
      using g [THEN conjunct2, THEN conjunct2] by (simp only: getProp_tagObject)
    ultimately show ?thesis
      using Some g [THEN conjunct1] by simp
  qed
  have both: "presentNonEmpty tgs ''tourism'' \<Longrightarrow> determineCategory (tagObject tgs) = ''tourism''"
    by (simp add: determineCategory_def truthyValue_tagObject)
  have t1: "map_of (feature_properties feature) ''tags'' = Some (tagObject tgs) \<Longrightarrow>
        tagsOf (feature_properties feature) = tagObject tgs"
    by (simp add: tagsOf_def valueOr_def truthyValue_def tagObject_def)
  have t2: "map_of (feature_properties feature) ''tags'' = None \<Longrightarrow>
        tagsOf (feature_properties feature) = JObj (feature_properties feature)"
    by (simp add: tagsOf_def valueOr_def)
  show ?thesis
    using typed both general [of obj] processFeature_category [of numToString now feature p] t1 t2
    by simp
qed

theorem category_by_priority_witness:
  "determineCategory (tagObject [(''tourism'', ''museum''), (''amenity'', ''cafe'')]) = ''tourism''
   \<and> determineSubcategory (tagObject [(''tourism'', ''museum''), (''amenity'', ''cafe'')])
       = JStr ''museum''
   \<and> determineCategory (tagObject [(''amenity'', ''cafe'')]) = ''amenity''
   \<and> map_sum id category (processFeature sampleNumToString 1000 pointFeature) = Inr ''tourism''
   \<and> map_sum id category (processFeature sampleNumToString 1000 untaggedFeature) = Inr ''tourism''
   \<and> map_sum id subcategory (processFeature sampleNumToString 1000 untaggedFeature)
       = Inr (JNum (Num 5))"
proof -
  have p: "processFeature sampleNumToString 1000 pointFeature
      = Inr (projr (processFeature sampleNumToString 1000 pointFeature))"
    "processFeature sampleNumToString 1000 untaggedFeature
      = Inr (projr (processFeature sampleNumToString 1000 untaggedFeature))"
    by (simp_all add: processFeature_def resolveCoordinates_def pointFeature_def
        untaggedFeature_def Let_def)
  have k: "firstPresentKey [(''tourism'', ''museum''), (''amenity'', ''cafe'')] = Some ''tourism''"
    "firstPresentKey [(''amenity'', ''cafe'')] = Some ''amenity''"
    "firstTruthyKey (JObj [(''tourism'', JNum (Num 5))]) = Some ''tourism''"
    by (simp_all add: firstPresentKey_def firstTruthyKey_def categoryPriority_def
        presentNonEmpty_def getProp_def truthyValue_def)
  have tg: "map_of (feature_properties pointFeature) ''tags''
      = Some (tagObject [(''tourism'', ''museum''), (''amenity'', ''cafe'')])"
    "map_of (feature_properties untaggedFeature) ''tags'' = None"
    by (simp_all add: pointFeature_def untaggedFeature_def museumTags_def tagObject_def)
  note a = category_by_priority
    [of "[(''tourism'', ''museum''), (''amenity'', ''cafe'')]"
        "JObj [(''tourism'', JNum (Num 5))]" sampleNumToString 1000 pointFeature
        "projr (processFeature sampleNumToString 1000 pointFeature)"]
  note b = category_by_priority
    [of "[(''amenity'', ''cafe'')]"
        "JObj [(''tourism'', JNum (Num 5))]" sampleNumToString 1000 untaggedFeature
        "projr (processFeature sampleNumToString 1000 untaggedFeature)"]
  have c1: "category (projr (processFeature sampleNumToString 1000 pointFeature)) = ''tourism''"
    using a p(1) tg(1) k(1) by simp
  have c2: "category (projr (processFeature sampleNumToString 1000 untaggedFeature)) = ''tourism''
      \<and> subcategory (projr (processFeature sampleNumToString 1000 untaggedFeature)) = JNum (Num 5)"
    using b p(2) tg(2) k(3) by (simp add: untaggedFeature_def getProp_def)
  have m: "map_sum id category (processFeature sampleNumToString 1000 pointFeature)
        = Inr (category (projr (processFeature sampleNumToString 1000 pointFeature)))"
    "map_sum id category (processFeature sampleNumToString 1000 untaggedFeature)
        = Inr (category (projr (processFeature sampleNumToString 1000 untaggedFeature)))"
    "map_sum id subcategory (processFeature sampleNumToString 1000 untaggedFeature)
        = Inr (subcategory (projr (processFeature sampleNumToString 1000 untaggedFeature)))"
    by (subst p, simp)+
  show ?thesis
    using a b k c1 c2 by (simp add: m)
qed

text \<open>The sums of \<^verbatim>\<open>calculateCentroid\<close> are the mean as doubles compute it.\<close>

lemma fold_numAdd:
  "fold (\<lambda>coord s. numAdd s (f coord)) coords a = foldl numAdd a (map f coords)"
  by (induction coords arbitrary: a) simp_all

lemma centroidOf_doubleMean:
  "centroidOf (v # vs)
     = Some (doubleMean (map fst (v # vs)), doubleMean (map snd (v # vs)))"
  by (simp add: centroidOf_def doubleMean_def Let_def fold_numAdd)

lemma centroidOf_empty: "centroidOf [] = None"
  by (simp add: centroidOf_def)

lemma foldl_numAdd_exact:
  "sumsExact a xs \<Longrightarrow> foldl numAdd (Num a) (map Num xs) = Num (a + sum_list xs)"
proof (induction xs arbitrary: a)
  case Nil
  then show ?case by simp
next
  case (Cons x xs)
  from Cons.prems have r: "roundDouble (a + x) = Num (a + x)" and s: "sumsExact (a + x) xs"
    by (simp_all add: representable_def)
  from Cons.IH [OF s] r show ?case
    by (simp add: add.assoc)
qed

lemma doubleMean_exact:
  assumes "xs \<noteq> []" and "meanExact xs"
  shows "doubleMean (map Num xs) = Num (sum_list xs / real (length xs))"
proof -
  from assms(2) have s: "sumsExact 0 xs"
    and q: "roundDouble (sum_list xs / real (length xs)) = Num (sum_list xs / real (length xs))"
    by (simp_all add: meanExact_def representable_def)
  from foldl_numAdd_exact [OF s] have "foldl numAdd (Num 0) (map Num xs) = Num (sum_list xs)"
    by simp
  with assms(1) q show ?thesis
    by (simp add: doubleMean_def)
qed

lemma centroidOf_exact:
  assumes "ps \<noteq> []" and "meanExact (map fst ps)" and "meanExact (map snd ps)"
  shows "centroidOf (map finitePosition ps) = Some (finitePosition (arithmeticMean ps))"
proof -
  obtain p ps' where ps: "ps = p # ps'"
    using assms(1) by (cases ps) simp_all
  have f: "map fst (map finitePosition ps) = map Num (map fst ps)"
    and s: "map snd (map finitePosition ps) = map Num (map snd ps)"
    by (simp_all add: finitePosition_def comp_def)
  have ne: "map fst ps \<noteq> []" "map snd ps \<noteq> []"
    using assms(1) by simp_all
  have "centroidOf (map finitePosition ps)
      = Some (doubleMean (map fst (map finitePosition ps)),
              doubleMean (map snd (map finitePosition ps)))"
    using centroidOf_doubleMean [of "finitePosition p" "map finitePosition ps'"]
    by (simp add: ps)
  also have "\<dots> = Some (Num (sum_list (map fst ps) / real (length (map fst ps))),
                        Num (sum_list (map snd ps) / real (length (map snd ps))))"
    unfolding f s
    using doubleMean_exact [OF ne(1) assms(2)] doubleMean_exact [OF ne(2) assms(3)]
    by simp
  finally show ?thesis
    by (simp add: finitePosition_def arithmeticMean_def)
qed

lemma representable_small:
  "representable 0" "representable 1" "representable 2" "representable 4"
  by (simp_all add: representable_def roundDouble_0 roundDouble_1 roundDouble_2 roundDouble_4)

lemma meanExact_square:
  "meanExact (map fst [(0, 0), (2, 0), (2, 2), (0::real, 2::real)])"
  "meanExact (map snd [(0, 0), (2, 0), (2, 2), (0::real, 2::real)])"
  by (simp_all add: meanExact_def representable_small)

lemma centroidOf_squareRing: "centroidOf squareRing = Some (Num 1, Num 1)"
proof -
  have "squareRing = map finitePosition [(0, 0), (2, 0), (2, 2), (0, 2)]"
    by (simp add: squareRing_def finitePosition_def)
  then show ?thesis
    using centroidOf_exact [OF _ meanExact_square]
    by (simp add: finitePosition_def arithmeticMean_def)
qed

text \<open>
  C5, as stated, fails: the sums and the quotient are computed in doubles. For the
  LineString with the vertices \<^verbatim>\<open>(2^53, 0)\<close> and \<^verbatim>\<open>(1, 0)\<close> the sum \<^verbatim>\<open>2^53 + 1\<close> is
  rounded to \<^verbatim>\<open>2^53\<close>, and the result is \<^verbatim>\<open>(2^52, 0)\<close>, not the arithmetic mean
  \<^verbatim>\<open>((2^53 + 1) / 2, 0)\<close>. The coordinates of the input are doubles.
\<close>

theorem centroid_not_exact_mean:
  "calculateCentroid (LineString [(Num 9007199254740992, Num 0), (Num 1, Num 0)])
     = Inr (Some (Num 4503599627370496, Num 0))
   \<and> arithmeticMean [(9007199254740992, 0), (1, 0)] = (9007199254740993 / 2, 0)
   \<and> Num 4503599627370496 \<noteq> Num (9007199254740993 / 2)
   \<and> representable 9007199254740992 \<and> representable 1 \<and> representable 0"
proof -
  have "representable 9007199254740992 \<and> representable 1 \<and> representable 0"
    by (simp add: representable_def roundDouble_2p53 roundDouble_1 roundDouble_0)
  moreover
  have "calculateCentroid (LineString [(Num 9007199254740992, Num 0), (Num 1, Num 0)])
     = Inr (Some (Num 4503599627370496, Num 0))"
    by (simp add: centroidOf_def Let_def roundDouble_0 roundDouble_2p53 roundDouble_2p53_1
        roundDouble_2p52)
  moreover have "arithmeticMean [(9007199254740992, 0), (1, 0)] = (9007199254740993 / 2, 0)"
    by (simp add: arithmeticMean_def)
  moreover have "Num 4503599627370496 \<noteq> Num (9007199254740993 / 2)"
    by simp
  ultimately show ?thesis
    by blast
qed

text \<open>
  C5, amended. For a Polygon \<^verbatim>\<open>calculateCentroid\<close> returns what it returns for the
  LineString of the first ring, whatever the other rings; for a LineString it returns
  the mean of all vertices as doubles compute it: the coordinates added from the
  left, starting at 0, and each sum divided by the number of vertices, every operation
  rounded to the nearest double. The result is the arithmetic mean whenever no
  operation rounds; the Polygon whose outer ring is (0,0), (2,0), (2,2), (0,2) gives
  (1,1). An empty vertex list gives no location. The normalizer takes the location
  of a Polygon or LineString feature from this function.
\<close>

theorem calculateCentroid_mean:
  "calculateCentroid (Polygon (ring # rings)) = calculateCentroid (LineString ring)
   \<and> calculateCentroid (LineString (v # vs))
       = Inr (Some (doubleMean (map fst (v # vs)), doubleMean (map snd (v # vs))))
   \<and> (ps \<noteq> [] \<and> meanExact (map fst ps) \<and> meanExact (map snd ps) \<longrightarrow>
        calculateCentroid (LineString (map finitePosition ps))
          = Inr (Some (finitePosition (arithmeticMean ps))))
   \<and> calculateCentroid (Polygon ([] # rings)) = Inr None
   \<and> calculateCentroid (LineString []) = Inr None
   \<and> calculateCentroid
        (Polygon [[(Num 0, Num 0), (Num 2, Num 0), (Num 2, Num 2), (Num 0, Num 2)]])
       = Inr (Some (Num 1, Num 1))
   \<and> (processFeature numToString now feature = Inr p
        \<and> (feature_geometry feature = Some (Polygon rings')
           \<or> feature_geometry feature = Some (LineString coords)) \<longrightarrow>
        (case feature_geometry feature of
           Some g \<Rightarrow> calculateCentroid g = Inr (location p)
         | None \<Rightarrow> False))"
proof -
  have sq: "calculateCentroid
        (Polygon [[(Num 0, Num 0), (Num 2, Num 0), (Num 2, Num 2), (Num 0, Num 2)]])
       = Inr (Some (Num 1, Num 1))"
    using centroidOf_squareRing by (simp add: squareRing_def)
  have exact: "calculateCentroid (LineString (map finitePosition ps))
          = Inr (Some (finitePosition (arithmeticMean ps)))"
    if "ps \<noteq> [] \<and> meanExact (map fst ps) \<and> meanExact (map snd ps)"
    using that centroidOf_exact [of ps] by simp
  have loc: "case feature_geometry feature of
           Some g \<Rightarrow> calculateCentroid g = Inr (location p)
         | None \<Rightarrow> False"
    if "processFeature numToString now feature = Inr p
        \<and> (feature_geometry feature = Some (Polygon rings')
           \<or> feature_geometry feature = Some (LineString coords))"
    using that processFeature_location [of numToString now feature p]
    by (auto simp: resolveCoordinates_def)
  have mean: "calculateCentroid (LineString (v # vs))
       = Inr (Some (doubleMean (map fst (v # vs)), doubleMean (map snd (v # vs))))"
    using centroidOf_doubleMean [of v vs] by simp
  have first: "calculateCentroid (Polygon (ring # rings)) = calculateCentroid (LineString ring)"
    by simp
  have empty: "calculateCentroid (Polygon ([] # rings)) = Inr None"
    "calculateCentroid (LineString []) = Inr None"
    by (simp_all add: centroidOf_empty)
  from first mean exact empty sq loc show ?thesis
    by blast
qed

theorem calculateCentroid_mean_witness:
  "calculateCentroid (LineString (map finitePosition [(0, 0), (2, 0), (2, 2), (0, 2)]))
     = Inr (Some (Num 1, Num 1))
   \<and> arithmeticMean [(0, 0), (2, 0), (2, 2), (0, 2)] = (1, 1)
   \<and> map_sum id (map location)
        (processForMongoDB sampleNumToString sampleClock \<lparr>features = [polygonFeature]\<rparr>)
       = Inr [Some (Num 1, Num 1)]"
proof -
  have a: "arithmeticMean [(0, 0), (2, 0), (2, 2), (0, 2)] = (1, 1)"
    by (simp add: arithmeticMean_def)
  have r: "resolveCoordinates (feature_geometry polygonFeature) = Inr (Some (Num 1, Num 1))"
    using centroidOf_squareRing by (simp add: resolveCoordinates_def polygonFeature_def)
  then have p: "processFeature sampleNumToString 1000 polygonFeature
      = Inr (projr (processFeature sampleNumToString 1000 polygonFeature))"
    by (simp add: processFeature_def Let_def)
  have g: "feature_geometry polygonFeature = Some (Polygon [squareRing])"
    by (simp add: polygonFeature_def)
  note t = calculateCentroid_mean
    [of _ _ _ _ "[(0, 0), (2, 0), (2, 2), (0, 2)]" sampleNumToString 1000 polygonFeature
        "projr (processFeature sampleNumToString 1000 polygonFeature)" "[squareRing]"]
  have c: "calculateCentroid (LineString (map finitePosition [(0, 0), (2, 0), (2, 2), (0, 2)]))
     = Inr (Some (Num 1, Num 1))"
    using t [THEN conjunct2, THEN conjunct2, THEN conjunct1] meanExact_square a
    by (simp add: finitePosition_def)
  have "calculateCentroid (Polygon [squareRing])
      = Inr (location (projr (processFeature sampleNumToString 1000 polygonFeature)))"
    using t [THEN conjunct2, THEN conjunct2, THEN conjunct2, THEN conjunct2, THEN conjunct2,
        THEN conjunct2] p g
    by simp
  then have l: "location (projr (processFeature sampleNumToString 1000 polygonFeature))
      = Some (Num 1, Num 1)"
    using centroidOf_squareRing by simp
  have "mapFeatures sampleNumToString sampleClock [polygonFeature]
      = Inr [projr (processFeature sampleNumToString 1000 polygonFeature)]"
    by (simp add: sampleClock_def) (subst p, simp)
  then have "map_sum id (map location)
        (processForMongoDB sampleNumToString sampleClock \<lparr>features = [polygonFeature]\<rparr>)
       = Inr [Some (Num 1, Num 1)]"
    using l by (simp add: processForMongoDB_def)
  with c a show ?thesis
    by simp
qed

lemma multipolygon_never_located:
  assumes "feature_geometry feature = Some (MultiPolygon polygons)"
  shows "processForMongoDB numToString clock \<lparr>features = [feature]\<rparr> = Inr []"
  using assms by (simp add: processForMongoDB_def processFeature_def resolveCoordinates_def Let_def)

text \<open>
  C3 fails on the code. \<^verbatim>\<open>calculateCentroid\<close> has a MultiPolygon branch, and on the
  square it returns (1,1); \<^verbatim>\<open>processForMongoDB\<close> calls it for Polygon and LineString
  only, so a MultiPolygon feature gets no location and is filtered out.
\<close>

theorem multipolygon_feature_dropped:
  "calculateCentroid (MultiPolygon [[squareRing]]) = Inr (Some (Num 1, Num 1))
   \<and> processForMongoDB sampleNumToString sampleClock \<lparr>features = [multiPolygonFeature]\<rparr> = Inr []"
  by (simp add: multipolygon_never_located multiPolygonFeature_def centroidOf_squareRing)

text \<open>
  C4 fails on the code for the same reason: of a Point feature and a MultiPolygon
  feature with a non-empty outer ring, both resolvable by the location rules, only the
  first is in the output.
\<close>

theorem output_count_misses_multipolygon:
  "length (filter (\<lambda>f. resolvableNonEmpty (feature_geometry f))
             [pointFeature, multiPolygonFeature]) = 2
   \<and> map_sum id (map osm_id)
        (processForMongoDB sampleNumToString sampleClock
           \<lparr>features = [pointFeature, multiPolygonFeature]\<rparr>) = Inr [''node/12345'']"
  by (simp add: processForMongoDB_def processFeature_def resolveCoordinates_def Let_def
      pointFeature_def multiPolygonFeature_def squareRing_def museumTags_def
      orValue_def truthyValue_def jsString_def)

text \<open>
  What the filter does do: a feature without geometry, or with an empty vertex list,
  is never in the output, and apart from MultiPolygon features the output has one
  record for each feature with a resolvable, non-empty geometry.
\<close>

lemma resolveCoordinates_resolvable:
  assumes "resolveCoordinates g = Inr c" and "\<forall>polygons. g \<noteq> Some (MultiPolygon polygons)"
  shows "(c \<noteq> None) = resolvableNonEmpty g"
proof (cases g)
  case None
  with assms show ?thesis by (simp add: resolveCoordinates_def)
next
  case (Some geo)
  with assms show ?thesis
    by (cases geo) (auto simp: resolveCoordinates_def centroidOf_def Let_def split: list.splits)
qed

lemma mapFeatures_count:
  assumes "mapFeatures numToString clock fs = Inr ps"
    and "\<forall>f \<in> set fs. \<forall>polygons. feature_geometry f \<noteq> Some (MultiPolygon polygons)"
  shows "length (filter (\<lambda>p. location p \<noteq> None) ps)
         = length (filter (\<lambda>f. resolvableNonEmpty (feature_geometry f)) fs)"
  using assms
proof (induction fs arbitrary: clock ps)
  case Nil
  then show ?case by simp
next
  case (Cons f fs)
  from Cons.prems(1) obtain p ps' where p: "processFeature numToString (clock 0) f = Inr p"
    and ps': "mapFeatures numToString (\<lambda>n. clock (Suc n)) fs = Inr ps'" and ps: "ps = p # ps'"
    by (auto split: sum.splits)
  have "(location p \<noteq> None) = resolvableNonEmpty (feature_geometry f)"
    using processFeature_location [OF p] Cons.prems(2)
    by (intro resolveCoordinates_resolvable) simp_all
  moreover have "length (filter (\<lambda>p. location p \<noteq> None) ps')
         = length (filter (\<lambda>f. resolvableNonEmpty (feature_geometry f)) fs)"
    using Cons.IH [OF ps'] Cons.prems(2) by simp
  ultimately show ?case by (simp add: ps)
qed

lemma processForMongoDB_count:
  assumes "processForMongoDB numToString clock geojson = Inr ps"
    and "\<forall>f \<in> set (features geojson). \<forall>polygons.
           feature_geometry f \<noteq> Some (MultiPolygon polygons)"
  shows "length ps
         = length (filter (\<lambda>f. resolvableNonEmpty (feature_geometry f)) (features geojson))"
  using assms mapFeatures_count [of numToString clock "features geojson"]
  by (auto simp: processForMongoDB_def split: sum.splits)

lemma processForMongoDB_located:
  assumes "processForMongoDB numToString clock geojson = Inr ps" and "p \<in> set ps"
  shows "location p \<noteq> None"
  using assms by (auto simp: processForMongoDB_def split: sum.splits)

section \<open>Store: properties\<close>

lemma upsertDocument_fresh:
  assumes "\<forall>d \<in> set docs. osm_id d \<noteq> osm_id feature"
  shows "upsertDocument now feature docs =
           (docs @ [feature\<lparr>created_at := Some now\<rparr>],
            \<lparr>matchedCount = 0, modifiedCount = 0, upsertedCount = 1\<rparr>)"
  using assms by (induction docs) simp_all

lemma upsertDocument_last:
  assumes "\<forall>d \<in> set docs. osm_id d \<noteq> osm_id feature" and "osm_id doc = osm_id feature"
  shows "upsertDocument now feature (docs @ [doc]) =
           (docs @ [applySet feature doc],
            \<lparr>matchedCount = 1,
             modifiedCount = (if applySet feature doc = doc then 0 else 1),
             upsertedCount = 0\<rparr>)"
  using assms by (induction docs) simp_all

lemma created_at_update_inject:
  fixes f1 f2 :: ProcessedPlace
  assumes "f2\<lparr>created_at := t\<rparr> = f1\<lparr>created_at := t\<rparr>" and "created_at f1 = created_at f2"
  shows "f2 = f1"
  using assms by (cases f1, cases f2) simp

lemma upsertDocument_ids:
  "osm_id ` set (fst (upsertDocument now feature docs)) = insert (osm_id feature) (osm_id ` set docs)"
  by (induction docs) (auto simp: applySet_def split: prod.splits)

lemma upsertDocument_upserted:
  "upsertedCount (snd (upsertDocument now feature docs))
     = (if osm_id feature \<in> osm_id ` set docs then 0 else 1)"
  by (induction docs) (auto split: prod.splits)

lemma upsertDocument_length:
  "length (fst (upsertDocument now feature docs))
     = (if osm_id feature \<in> osm_id ` set docs then length docs else length docs + 1)"
  by (induction docs) (auto split: prod.splits)

text \<open>The loop never stops early: it counts one error for each refused record.\<close>

lemma storeLoop_errors:
  "errors (snd (storeLoop rejects clock fs docs results))
     = errors results + length (filter (writeFails rejects) fs)"
  by (induction fs arbitrary: clock docs results)
    (auto simp: updateOne_def split: prod.splits)

lemma storeLoop_ids:
  "osm_id ` set (fst (storeLoop rejects clock fs docs results))
     = osm_id ` set docs \<union> osm_id ` {f \<in> set fs. \<not> writeFails rejects f}"
proof (induction fs arbitrary: clock docs results)
  case Nil
  then show ?case by simp
next
  case (Cons f fs)
  show ?case
  proof (cases "writeFails rejects f")
    case True
    then show ?thesis
      using Cons.IH by (auto simp: updateOne_def)
  next
    case False
    obtain docs' result where up: "upsertDocument (clock 0) f docs = (docs', result)"
      by (cases "upsertDocument (clock 0) f docs")
    then have "osm_id ` set docs' = insert (osm_id f) (osm_id ` set docs)"
      using upsertDocument_ids [of "clock 0" f docs] by simp
    with False up show ?thesis
      using Cons.IH by (auto simp: updateOne_def)
  qed
qed

lemma storeLoop_fresh_distinct:
  assumes "distinct (map osm_id (filter (\<lambda>f. \<not> writeFails rejects f) fs))"
    and "\<forall>f \<in> set fs. \<not> writeFails rejects f \<longrightarrow> osm_id f \<notin> osm_id ` set docs"
  shows "inserted (snd (storeLoop rejects clock fs docs results))
           = inserted results + length (filter (\<lambda>f. \<not> writeFails rejects f) fs)
       \<and> updated (snd (storeLoop rejects clock fs docs results)) = updated results
       \<and> length (fst (storeLoop rejects clock fs docs results))
           = length docs + length (filter (\<lambda>f. \<not> writeFails rejects f) fs)"
  using assms
proof (induction fs arbitrary: clock docs results)
  case Nil
  then show ?case by simp
next
  case (Cons f fs)
  show ?case
  proof (cases "writeFails rejects f")
    case True
    then show ?thesis
      using Cons.IH [of docs] Cons.prems by (simp add: updateOne_def)
  next
    case False
    obtain docs' result where up: "upsertDocument (clock 0) f docs = (docs', result)"
      by (cases "upsertDocument (clock 0) f docs")
    from False Cons.prems(2) have new: "osm_id f \<notin> osm_id ` set docs"
      by simp
    have ids: "osm_id ` set docs' = insert (osm_id f) (osm_id ` set docs)"
      using upsertDocument_ids [of "clock 0" f docs] up by simp
    have cnt: "upsertedCount result = 1"
      using upsertDocument_upserted [of "clock 0" f docs] up new by simp
    have len: "length docs' = length docs + 1"
      using upsertDocument_length [of "clock 0" f docs] up new by simp
    have d: "distinct (map osm_id (filter (\<lambda>f. \<not> writeFails rejects f) fs))"
      using Cons.prems(1) False by simp
    have fr: "\<forall>g \<in> set fs. \<not> writeFails rejects g \<longrightarrow> osm_id g \<notin> osm_id ` set docs'"
    proof (intro ballI impI)
      fix g
      assume g: "g \<in> set fs" "\<not> writeFails rejects g"
      then have "osm_id g \<in> set (map osm_id (filter (\<lambda>f. \<not> writeFails rejects f) fs))"
        by simp
      with Cons.prems(1) False have "osm_id g \<noteq> osm_id f"
        by auto
      moreover from g Cons.prems(2) have "osm_id g \<notin> osm_id ` set docs"
        by simp
      ultimately show "osm_id g \<notin> osm_id ` set docs'"
        using ids by simp
    qed
    show ?thesis
      using Cons.IH [OF d fr] False up cnt len by (simp add: updateOne_def)
  qed
qed

text \<open>
  C1. Upserting the same source id twice with different field values, into a
  connected store that has no document of that id: the first call reports one
  insertion, the second one update, the store holds one document of that id, whose
  creation time is that of the first call and whose other fields are those of the
  second call. A further upsert of the same fields reports neither an insertion nor an
  update.
\<close>

theorem upsert_same_id_twice:
  assumes "\<forall>d \<in> set docs. osm_id d \<noteq> osm_id f1"
    and "osm_id f2 = osm_id f1"
    and "f2 \<noteq> f1"
    and "created_at f1 = None" and "created_at f2 = None"
    and "\<not> rejects f1" and "\<not> rejects f2"
  shows "storeFeatures rejects clock1 \<lparr>collection = Some docs\<rparr> [f1]
           = Inr (\<lparr>inserted = 1, updated = 0, errors = 0\<rparr>,
                  \<lparr>collection = Some (docs @ [f1\<lparr>created_at := Some (clock1 0)\<rparr>])\<rparr>)
       \<and> storeFeatures rejects clock2
             \<lparr>collection = Some (docs @ [f1\<lparr>created_at := Some (clock1 0)\<rparr>])\<rparr> [f2]
           = Inr (\<lparr>inserted = 0, updated = 1, errors = 0\<rparr>,
                  \<lparr>collection = Some (docs @ [f2\<lparr>created_at := Some (clock1 0)\<rparr>])\<rparr>)
       \<and> storeFeatures rejects clock3
             \<lparr>collection = Some (docs @ [f2\<lparr>created_at := Some (clock1 0)\<rparr>])\<rparr> [f2]
           = Inr (\<lparr>inserted = 0, updated = 0, errors = 0\<rparr>,
                  \<lparr>collection = Some (docs @ [f2\<lparr>created_at := Some (clock1 0)\<rparr>])\<rparr>)
       \<and> filter (\<lambda>d. osm_id d = osm_id f1) (docs @ [f2\<lparr>created_at := Some (clock1 0)\<rparr>])
           = [f2\<lparr>created_at := Some (clock1 0)\<rparr>]"
proof -
  let ?t = "Some (clock1 0)"
  have fresh2: "\<forall>d \<in> set docs. osm_id d \<noteq> osm_id f2"
    using assms(1,2) by simp
  have first: "storeFeatures rejects clock1 \<lparr>collection = Some docs\<rparr> [f1]
           = Inr (\<lparr>inserted = 1, updated = 0, errors = 0\<rparr>,
                  \<lparr>collection = Some (docs @ [f1\<lparr>created_at := ?t\<rparr>])\<rparr>)"
    using assms(4,6) upsertDocument_fresh [OF assms(1), of "clock1 0"]
    by (simp add: storeFeatures_def updateOne_def writeFails_def)
  have changed: "applySet f2 (f1\<lparr>created_at := ?t\<rparr>) \<noteq> f1\<lparr>created_at := ?t\<rparr>"
  proof
    assume "applySet f2 (f1\<lparr>created_at := ?t\<rparr>) = f1\<lparr>created_at := ?t\<rparr>"
    then have "f2\<lparr>created_at := ?t\<rparr> = f1\<lparr>created_at := ?t\<rparr>"
      by (simp add: applySet_def)
    moreover have "created_at f1 = created_at f2"
      using assms(4,5) by simp
    ultimately have "f2 = f1"
      by (rule created_at_update_inject)
    with assms(3) show False by simp
  qed
  have second: "storeFeatures rejects clock2
             \<lparr>collection = Some (docs @ [f1\<lparr>created_at := ?t\<rparr>])\<rparr> [f2]
           = Inr (\<lparr>inserted = 0, updated = 1, errors = 0\<rparr>,
                  \<lparr>collection = Some (docs @ [f2\<lparr>created_at := ?t\<rparr>])\<rparr>)"
    using assms(2,5,7) changed
      upsertDocument_last [OF fresh2, of "f1\<lparr>created_at := ?t\<rparr>" "clock2 0"]
    by (simp add: storeFeatures_def updateOne_def writeFails_def applySet_def)
  have third: "storeFeatures rejects clock3
             \<lparr>collection = Some (docs @ [f2\<lparr>created_at := ?t\<rparr>])\<rparr> [f2]
           = Inr (\<lparr>inserted = 0, updated = 0, errors = 0\<rparr>,
                  \<lparr>collection = Some (docs @ [f2\<lparr>created_at := ?t\<rparr>])\<rparr>)"
    using assms(5,7)
      upsertDocument_last [OF fresh2, of "f2\<lparr>created_at := ?t\<rparr>" "clock3 0"]
    by (simp add: storeFeatures_def updateOne_def writeFails_def applySet_def)
  have one: "filter (\<lambda>d. osm_id d = osm_id f1) (docs @ [f2\<lparr>created_at := ?t\<rparr>])
           = [f2\<lparr>created_at := ?t\<rparr>]"
    using assms(1,2) by (simp add: filter_empty_conv)
  from first second third one show ?thesis by simp
qed

theorem upsert_same_id_twice_witness:
  "storeFeatures (\<lambda>f. False) sampleClock \<lparr>collection = Some []\<rparr> [samplePlace ''node/1'' ''Old'']
     = Inr (\<lparr>inserted = 1, updated = 0, errors = 0\<rparr>,
            \<lparr>collection = Some [(samplePlace ''node/1'' ''Old'')\<lparr>created_at := Some 1000\<rparr>]\<rparr>)
   \<and> storeFeatures (\<lambda>f. False) (\<lambda>n. 2000)
        \<lparr>collection = Some [(samplePlace ''node/1'' ''Old'')\<lparr>created_at := Some 1000\<rparr>]\<rparr>
        [samplePlace ''node/1'' ''New'']
     = Inr (\<lparr>inserted = 0, updated = 1, errors = 0\<rparr>,
            \<lparr>collection = Some [(samplePlace ''node/1'' ''New'')\<lparr>created_at := Some 1000\<rparr>]\<rparr>)
   \<and> storeFeatures (\<lambda>f. False) (\<lambda>n. 3000)
        \<lparr>collection = Some [(samplePlace ''node/1'' ''New'')\<lparr>created_at := Some 1000\<rparr>]\<rparr>
        [samplePlace ''node/1'' ''New'']
     = Inr (\<lparr>inserted = 0, updated = 0, errors = 0\<rparr>,
            \<lparr>collection = Some [(samplePlace ''node/1'' ''New'')\<lparr>created_at := Some 1000\<rparr>]\<rparr>)"
  using upsert_same_id_twice
    [of "[]" "samplePlace ''node/1'' ''Old''" "samplePlace ''node/1'' ''New''" "\<lambda>f. False"
        sampleClock "\<lambda>n. 2000" "\<lambda>n. 3000"]
  by (simp add: samplePlace_def sampleClock_def)

text \<open>
  C6. A refused upsert is caught and counted, and the loop goes on: the call returns,
  its error count is the number of refused records, and every other record of the
  batch has a document in the store afterwards. When the other records carry distinct
  ids that are new to the store, each of them is an insertion. Of five records with
  exactly one refused, four are written and the error count is one.
\<close>

theorem storeFeatures_isolates_failures:
  "\<exists>results docs'.
     storeFeatures rejects clock \<lparr>collection = Some docs\<rparr> fs
       = Inr (results, \<lparr>collection = Some docs'\<rparr>)
     \<and> errors results = length (filter (writeFails rejects) fs)
     \<and> osm_id ` set docs' = osm_id ` set docs \<union> osm_id ` {f \<in> set fs. \<not> writeFails rejects f}
     \<and> (distinct (map osm_id (filter (\<lambda>f. \<not> writeFails rejects f) fs))
          \<and> (\<forall>f \<in> set fs. \<not> writeFails rejects f \<longrightarrow> osm_id f \<notin> osm_id ` set docs)
        \<longrightarrow> inserted results = length (filter (\<lambda>f. \<not> writeFails rejects f) fs)
            \<and> length docs' = length docs + length (filter (\<lambda>f. \<not> writeFails rejects f) fs))
     \<and> (length fs = 5 \<and> length (filter (writeFails rejects) fs) = 1
        \<longrightarrow> errors results = 1 \<and> length (filter (\<lambda>f. \<not> writeFails rejects f) fs) = 4)"
proof -
  let ?zero = "\<lparr>inserted = 0, updated = 0, errors = 0\<rparr>"
  obtain docs' results where loop: "storeLoop rejects clock fs docs ?zero = (docs', results)"
    by (cases "storeLoop rejects clock fs docs ?zero")
  have ret: "storeFeatures rejects clock \<lparr>collection = Some docs\<rparr> fs
       = Inr (results, \<lparr>collection = Some docs'\<rparr>)"
    by (simp add: storeFeatures_def loop)
  have err: "errors results = length (filter (writeFails rejects) fs)"
    using storeLoop_errors [of rejects clock fs docs ?zero] loop by simp
  have ids: "osm_id ` set docs'
      = osm_id ` set docs \<union> osm_id ` {f \<in> set fs. \<not> writeFails rejects f}"
    using storeLoop_ids [of rejects clock fs docs ?zero] loop by simp
  have ins: "inserted results = length (filter (\<lambda>f. \<not> writeFails rejects f) fs)
            \<and> length docs' = length docs + length (filter (\<lambda>f. \<not> writeFails rejects f) fs)"
    if "distinct (map osm_id (filter (\<lambda>f. \<not> writeFails rejects f) fs))"
      and "\<forall>f \<in> set fs. \<not> writeFails rejects f \<longrightarrow> osm_id f \<notin> osm_id ` set docs"
    using storeLoop_fresh_distinct [OF that, of clock ?zero] loop by simp
  have split: "length (filter (\<lambda>f. \<not> writeFails rejects f) fs)
      + length (filter (writeFails rejects) fs) = length fs"
    using sum_length_filter_compl [of "writeFails rejects" fs] by simp
  have five: "errors results = 1 \<and> length (filter (\<lambda>f. \<not> writeFails rejects f) fs) = 4"
    if "length fs = 5" and "length (filter (writeFails rejects) fs) = 1"
    using that err split by simp
  from ret err ids ins five show ?thesis
    by blast
qed

theorem storeFeatures_isolates_failures_witness:
  "\<exists>results docs'.
     storeFeatures sampleRejects sampleClock \<lparr>collection = Some []\<rparr> sampleBatch
       = Inr (results, \<lparr>collection = Some docs'\<rparr>)
     \<and> errors results = 1 \<and> inserted results = 4 \<and> length docs' = 4
     \<and> osm_id ` set docs' = {''node/1'', ''node/2'', ''node/4'', ''node/5''}"
proof -
  have bad: "filter (writeFails sampleRejects) sampleBatch = [samplePlace ''node/3'' ''C'']"
    by (simp add: sampleBatch_def sampleRejects_def samplePlace_def writeFails_def)
  have good: "filter (\<lambda>f. \<not> writeFails sampleRejects f) sampleBatch
      = [samplePlace ''node/1'' ''A'', samplePlace ''node/2'' ''B'',
         samplePlace ''node/4'' ''D'', samplePlace ''node/5'' ''E'']"
    by (simp add: sampleBatch_def sampleRejects_def samplePlace_def writeFails_def)
  have goodset: "{f \<in> set sampleBatch. \<not> writeFails sampleRejects f}
      = set (filter (\<lambda>f. \<not> writeFails sampleRejects f) sampleBatch)"
    by auto
  have len: "length sampleBatch = 5"
    by (simp add: sampleBatch_def)
  have ids: "map osm_id (filter (\<lambda>f. \<not> writeFails sampleRejects f) sampleBatch)
      = [''node/1'', ''node/2'', ''node/4'', ''node/5'']"
    by (simp add: good) (simp add: samplePlace_def)
  from storeFeatures_isolates_failures [of sampleRejects sampleClock "[]" sampleBatch]
  show ?thesis
  proof (elim exE conjE)
    fix results docs'
    assume r: "storeFeatures sampleRejects sampleClock \<lparr>collection = Some []\<rparr> sampleBatch
          = Inr (results, \<lparr>collection = Some docs'\<rparr>)"
      and e: "errors results = length (filter (writeFails sampleRejects) sampleBatch)"
      and i: "osm_id ` set docs'
          = osm_id ` set [] \<union> osm_id ` {f \<in> set sampleBatch. \<not> writeFails sampleRejects f}"
      and d: "distinct (map osm_id (filter (\<lambda>f. \<not> writeFails sampleRejects f) sampleBatch))
          \<and> (\<forall>f \<in> set sampleBatch. \<not> writeFails sampleRejects f \<longrightarrow> osm_id f \<notin> osm_id ` set [])
        \<longrightarrow> inserted results = length (filter (\<lambda>f. \<not> writeFails sampleRejects f) sampleBatch)
            \<and> length docs' = length [] + length (filter (\<lambda>f. \<not> writeFails sampleRejects f) sampleBatch)"
    have "errors results = 1"
      using e bad by simp
    moreover have "inserted results = 4 \<and> length docs' = 4"
      using d ids by (simp add: good)
    moreover have "osm_id ` set docs' = {''node/1'', ''node/2'', ''node/4'', ''node/5''}"
      using i unfolding goodset by (simp only: image_set ids) simp
    ultimately show ?thesis
      using r by blast
  qed
qed

lemma processFeature_idless:
  assumes "feature_id f = None" and "map_of (feature_properties f) ''id'' = None"
    and "processFeature numToString now f = Inr p"
  shows "osm_id p = [] \<and> created_at p = None"
  using assms
  by (auto simp: processFeature_def Let_def orValue_def truthyValue_def jsString_def
      split: sum.splits)

lemma mapFeatures_origin:
  assumes "mapFeatures numToString clock fs = Inr ps"
  shows "list_all2 (\<lambda>f p. \<exists>now. processFeature numToString now f = Inr p) fs ps"
  using assms
proof (induction fs arbitrary: clock ps)
  case Nil
  then show ?case by simp
next
  case (Cons f fs)
  then show ?case
    by (auto split: sum.splits)
qed

lemma storeLoop_two_same_id:
  assumes "\<forall>d \<in> set docs. osm_id d \<noteq> osm_id p" and "osm_id q = osm_id p"
    and "\<not> writeFails rejects p" and "\<not> writeFails rejects q"
  shows "fst (storeLoop rejects clock [p, q] docs results)
           = docs @ [q\<lparr>created_at := Some (clock 0)\<rparr>]
       \<and> inserted (snd (storeLoop rejects clock [p, q] docs results)) = inserted results + 1
       \<and> errors (snd (storeLoop rejects clock [p, q] docs results)) = errors results"
proof -
  have fresh: "\<forall>d \<in> set docs. osm_id d \<noteq> osm_id q"
    using assms(1,2) by simp
  show ?thesis
    using assms(2,3,4) upsertDocument_fresh [OF assms(1), of "clock 0"]
      upsertDocument_last [OF fresh, of "p\<lparr>created_at := Some (clock 0)\<rparr>" "clock (Suc 0)"]
    by (simp add: updateOne_def applySet_def)
qed

text \<open>
  C10. A feature without an id, whose properties carry no id either, is normalized
  with the empty string as its source id. Two such features therefore share one
  identity: stored one after the other into a store without a document of the empty
  id, they leave a single document, with the fields of the later one.
\<close>

theorem idless_features_collapse:
  assumes "feature_id f = None" and "map_of (feature_properties f) ''id'' = None"
    and "feature_id g = None" and "map_of (feature_properties g) ''id'' = None"
  shows "(processFeature numToString now f = Inr p \<longrightarrow> osm_id p = [])
       \<and> (processForMongoDB numToString clock \<lparr>features = [f, g]\<rparr> = Inr [p, q]
            \<and> \<not> rejects p \<and> \<not> rejects q \<and> (\<forall>d \<in> set docs. osm_id d \<noteq> [])
          \<longrightarrow> osm_id p = [] \<and> osm_id q = []
              \<and> (\<exists>results.
                    storeFeatures rejects clock' \<lparr>collection = Some docs\<rparr> [p, q]
                      = Inr (results,
                             \<lparr>collection = Some (docs @ [q\<lparr>created_at := Some (clock' 0)\<rparr>])\<rparr>)
                    \<and> inserted results = 1 \<and> errors results = 0))"
proof (intro conjI impI)
  assume "processFeature numToString now f = Inr p"
  with assms(1,2) show "osm_id p = []"
    using processFeature_idless by blast
next
  assume a: "processForMongoDB numToString clock \<lparr>features = [f, g]\<rparr> = Inr [p, q]
            \<and> \<not> rejects p \<and> \<not> rejects q \<and> (\<forall>d \<in> set docs. osm_id d \<noteq> [])"
  then obtain ps where ps: "mapFeatures numToString clock [f, g] = Inr ps"
    and flt: "filter (\<lambda>f. location f \<noteq> None) ps = [p, q]"
    by (auto simp: processForMongoDB_def split: sum.splits)
  from mapFeatures_origin [OF ps]
  have all: "\<forall>r \<in> set ps. osm_id r = [] \<and> created_at r = None"
    using assms processFeature_idless
    by (auto simp: list_all2_Cons1)
  have "p \<in> set ps" and "q \<in> set ps"
    using flt by (metis filter_is_subset list.set_intros(1) subsetD,
        metis filter_is_subset list.set_intros(1,2) subsetD)
  with all have p: "osm_id p = [] \<and> created_at p = None"
    and q: "osm_id q = [] \<and> created_at q = None"
    by simp_all
  from p show "osm_id p = []" by simp
  from q show "osm_id q = []" by simp
  let ?zero = "\<lparr>inserted = 0, updated = 0, errors = 0\<rparr>"
  have fresh: "\<forall>d \<in> set docs. osm_id d \<noteq> osm_id p"
    using a p by simp
  have "\<not> writeFails rejects p" and "\<not> writeFails rejects q"
    using a p q by (simp_all add: writeFails_def)
  with storeLoop_two_same_id [OF fresh, of q rejects clock' ?zero] p q
  have two: "fst (storeLoop rejects clock' [p, q] docs ?zero)
           = docs @ [q\<lparr>created_at := Some (clock' 0)\<rparr>]
       \<and> inserted (snd (storeLoop rejects clock' [p, q] docs ?zero)) = 1
       \<and> errors (snd (storeLoop rejects clock' [p, q] docs ?zero)) = 0"
    by simp
  obtain docs' results where loop: "storeLoop rejects clock' [p, q] docs ?zero = (docs', results)"
    by (cases "storeLoop rejects clock' [p, q] docs ?zero")
  with two have "storeFeatures rejects clock' \<lparr>collection = Some docs\<rparr> [p, q]
        = Inr (results, \<lparr>collection = Some (docs @ [q\<lparr>created_at := Some (clock' 0)\<rparr>])\<rparr>)
      \<and> inserted results = 1 \<and> errors results = 0"
    by (simp add: storeFeatures_def)
  then show "\<exists>results.
       storeFeatures rejects clock' \<lparr>collection = Some docs\<rparr> [p, q]
         = Inr (results, \<lparr>collection = Some (docs @ [q\<lparr>created_at := Some (clock' 0)\<rparr>])\<rparr>)
       \<and> inserted results = 1 \<and> errors results = 0"
    by blast
qed

theorem idless_features_collapse_witness:
  "\<exists>p q results.
     processForMongoDB sampleNumToString sampleClock
       \<lparr>features = [anonymousFeature (Num 80), anonymousFeature (Num 81)]\<rparr> = Inr [p, q]
     \<and> osm_id p = [] \<and> osm_id q = [] \<and> location p = Some (Num 80, Num 7) \<and> location q = Some (Num 81, Num 7)
     \<and> storeFeatures (\<lambda>f. False) sampleClock \<lparr>collection = Some []\<rparr> [p, q]
         = Inr (results, \<lparr>collection = Some [q\<lparr>created_at := Some 1000\<rparr>]\<rparr>)
     \<and> inserted results = 1 \<and> errors results = 0"
proof -
  obtain p q where pq: "processForMongoDB sampleNumToString sampleClock
       \<lparr>features = [anonymousFeature (Num 80), anonymousFeature (Num 81)]\<rparr> = Inr [p, q]"
    and loc: "location p = Some (Num 80, Num 7)" "location q = Some (Num 81, Num 7)"
    by (simp add: processForMongoDB_def processFeature_def resolveCoordinates_def Let_def
        anonymousFeature_def)
  have noid: "feature_id (anonymousFeature (Num 80)) = None"
    "map_of (feature_properties (anonymousFeature (Num 80))) ''id'' = None"
    "feature_id (anonymousFeature (Num 81)) = None"
    "map_of (feature_properties (anonymousFeature (Num 81))) ''id'' = None"
    by (simp_all add: anonymousFeature_def museumTags_def)
  from idless_features_collapse
    [OF noid, of sampleNumToString 0 p sampleClock q "\<lambda>f. False" "[]" sampleClock] pq
  have "osm_id p = [] \<and> osm_id q = []
      \<and> (\<exists>results. storeFeatures (\<lambda>f. False) sampleClock \<lparr>collection = Some []\<rparr> [p, q]
            = Inr (results, \<lparr>collection = Some [q\<lparr>created_at := Some 1000\<rparr>]\<rparr>)
          \<and> inserted results = 1 \<and> errors results = 0)"
    by (simp add: sampleClock_def)
  with pq loc show ?thesis
    by blast
qed

end
